theory Spec2Isabelle
  imports Main
begin

section \<open>Integers and their decimal form\<close>

text \<open>
  Go's \<^verbatim>\<open>int\<close> is modelled as \<open>int\<close>. The only arithmetic of the package is
  \<^verbatim>\<open>days % k\<close> and \<^verbatim>\<open>days / k\<close> with a positive constant \<open>k\<close>, which cannot
  overflow, so every machine integer behaves as the mathematical one. Go's
  quotient and remainder truncate towards zero; they are written out here.
\<close>

definition go_quo :: "int \<Rightarrow> int \<Rightarrow> int" where
  "go_quo a b = (if (a < 0) = (b < 0) then \<bar>a\<bar> div \<bar>b\<bar> else - (\<bar>a\<bar> div \<bar>b\<bar>))"

definition go_rem :: "int \<Rightarrow> int \<Rightarrow> int" where
  "go_rem a b = a - b * go_quo a b"

text \<open>\<^verbatim>\<open>strconv.Itoa\<close>: the decimal digits, most significant first, after a
  minus sign for a negative number.\<close>

definition digit_char :: "nat \<Rightarrow> char" where
  "digit_char d = ''0123456789'' ! d"

fun dec_digits :: "nat \<Rightarrow> string" where
  "dec_digits n =
     (if n < 10 then [digit_char n] else dec_digits (n div 10) @ [digit_char (n mod 10)])"

declare dec_digits.simps [simp del]

definition Itoa :: "int \<Rightarrow> string" where
  "Itoa i = (if i < 0 then CHR ''-'' # dec_digits (nat (- i)) else dec_digits (nat i))"

text \<open>Reading a digit string back, used to show that \<open>Itoa\<close> loses nothing.\<close>

definition digit_val :: "char \<Rightarrow> nat" where
  "digit_val c = of_char c - 48"

definition dec_val :: "string \<Rightarrow> nat" where
  "dec_val s = foldl (\<lambda>acc c. 10 * acc + digit_val c) 0 s"

section \<open>The expiration encoder\<close>

definition DefaultExpires :: int where
  "DefaultExpires = 14"

text \<open>
  \<^verbatim>\<open>
  func expires(days int) string {
      if days < 1 { return strconv.Itoa(DefaultExpires) }
      if days%7 == 0 { return strconv.Itoa(days/7) + "w" }
      if days%31 == 0 { return strconv.Itoa(days/31) + "m" }
      if days%365 == 0 { return strconv.Itoa(days/365) + "y" }
      return strconv.Itoa(days)
  }
  \<close>
\<close>

definition expires :: "int \<Rightarrow> string" where
  "expires days =
     (if days < 1 then Itoa DefaultExpires
      else if go_rem days 7 = 0 then Itoa (go_quo days 7) @ ''w''
      else if go_rem days 31 = 0 then Itoa (go_quo days 31) @ ''m''
      else if go_rem days 365 = 0 then Itoa (go_quo days 365) @ ''y''
      else Itoa days)"

text \<open>The encoding algorithm in the words of the specification (section 4.1):
  the default for \<open>days < 1\<close>, then weeks, months, years in this order, each when
  the day count is an exact multiple, then the plain day count.\<close>

definition spec_encode :: "int \<Rightarrow> string" where
  "spec_encode days =
     (if days < 1 then ''14''
      else if 7 dvd days then Itoa (days div 7) @ ''w''
      else if 31 dvd days then Itoa (days div 31) @ ''m''
      else if 365 dvd days then Itoa (days div 365) @ ''y''
      else Itoa days)"

section \<open>JSON as the decoder reads it\<close>

text \<open>
  \<^verbatim>\<open>json.Unmarshal\<close> first runs its scanner over the whole input, a state machine fed
  byte by byte, and decodes only an input the scanner accepts. The scanner is modelled
  in two layers that accept the same inputs: \<open>scan\<close> cuts the bytes into tokens
  (strings, numbers, literals, punctuation; white space is a space, a tab, a carriage
  return or a line feed), and \<open>parse_tokens\<close> runs the scanner's stack of open arrays
  and objects over the tokens and builds the value. Nesting deeper than
  \<open>maxNestingDepth\<close> is refused, as the scanner does.
\<close>

type_synonym bytes = string

datatype json = JNull | JBool bool | JNumber string | JString string
  | JArray "json list" | JObject "(string \<times> json) list"

datatype token = TLBrace | TRBrace | TLBrack | TRBrack | TColon | TComma
  | TString string | TNumber string | TTrue | TFalse | TNull

datatype numstate = NNeg | NZero | NInt | NDot | NFrac | NExp | NExpSign | NExpDigits

datatype numstep = NumCont numstate | NumEnd | NumErr

datatype lexstate = LBegin | LString string | LStringEsc string | LStringU string nat
  | LNumber numstate string | LLiteral string token

definition isSpace :: "char \<Rightarrow> bool" where
  "isSpace c = (c = CHR '' '' \<or> c = CHR 0x09 \<or> c = CHR 0x0D \<or> c = CHR 0x0A)"

definition is_digit :: "char \<Rightarrow> bool" where
  "is_digit c = (c \<in> set ''0123456789'')"

definition is_hex :: "char \<Rightarrow> bool" where
  "is_hex c = (c \<in> set ''0123456789abcdefABCDEF'')"

definition is_e :: "char \<Rightarrow> bool" where
  "is_e c = (c = CHR ''e'' \<or> c = CHR ''E'')"

fun num_step :: "numstate \<Rightarrow> char \<Rightarrow> numstep" where
  "num_step NNeg c =
     (if c = CHR ''0'' then NumCont NZero else if is_digit c then NumCont NInt else NumErr)"
| "num_step NInt c =
     (if is_digit c then NumCont NInt
      else if c = CHR ''.'' then NumCont NDot
      else if is_e c then NumCont NExp else NumEnd)"
| "num_step NZero c =
     (if c = CHR ''.'' then NumCont NDot else if is_e c then NumCont NExp else NumEnd)"
| "num_step NDot c = (if is_digit c then NumCont NFrac else NumErr)"
| "num_step NFrac c =
     (if is_digit c then NumCont NFrac else if is_e c then NumCont NExp else NumEnd)"
| "num_step NExp c =
     (if c = CHR ''+'' \<or> c = CHR ''-'' then NumCont NExpSign
      else if is_digit c then NumCont NExpDigits else NumErr)"
| "num_step NExpSign c = (if is_digit c then NumCont NExpDigits else NumErr)"
| "num_step NExpDigits c = (if is_digit c then NumCont NExpDigits else NumEnd)"

fun num_final :: "numstate \<Rightarrow> bool" where
  "num_final NZero = True"
| "num_final NInt = True"
| "num_final NFrac = True"
| "num_final NExpDigits = True"
| "num_final _ = False"

definition byte :: "char \<Rightarrow> nat" where
  "byte c = of_char c"

definition in_range :: "nat \<Rightarrow> nat \<Rightarrow> bytes \<Rightarrow> nat \<Rightarrow> bool" where
  "in_range lo hi bs i = (i < length bs \<and> lo \<le> byte (bs ! i) \<and> byte (bs ! i) \<le> hi)"

definition utf8_len :: "char \<Rightarrow> bytes \<Rightarrow> nat" where
  "utf8_len c cs =
     (let b = byte c; cont = in_range 0x80 0xBF cs in
      if b < 0x80 then 1
      else if 0xC2 \<le> b \<and> b \<le> 0xDF then (if cont 0 then 2 else 0)
      else if b = 0xE0 then (if in_range 0xA0 0xBF cs 0 \<and> cont 1 then 3 else 0)
      else if b = 0xED then (if in_range 0x80 0x9F cs 0 \<and> cont 1 then 3 else 0)
      else if 0xE1 \<le> b \<and> b \<le> 0xEF then (if cont 0 \<and> cont 1 then 3 else 0)
      else if b = 0xF0 then (if in_range 0x90 0xBF cs 0 \<and> cont 1 \<and> cont 2 then 4 else 0)
      else if 0xF1 \<le> b \<and> b \<le> 0xF3 then (if cont 0 \<and> cont 1 \<and> cont 2 then 4 else 0)
      else if b = 0xF4 then (if in_range 0x80 0x8F cs 0 \<and> cont 1 \<and> cont 2 then 4 else 0)
      else 0)"

definition replacement :: bytes where
  "replacement = [CHR 0xEF, CHR 0xBF, CHR 0xBD]"

definition encode_rune :: "nat \<Rightarrow> bytes" where
  "encode_rune r =
     (if r < 0x80 then [char_of r]
      else if r < 0x800 then [char_of (0xC0 + r div 64), char_of (0x80 + r mod 64)]
      else if (0xD800 \<le> r \<and> r < 0xE000) \<or> 0x10FFFF < r then replacement
      else if r < 0x10000 then
        [char_of (0xE0 + r div 4096), char_of (0x80 + r div 64 mod 64), char_of (0x80 + r mod 64)]
      else
        [char_of (0xF0 + r div 262144), char_of (0x80 + r div 4096 mod 64),
         char_of (0x80 + r div 64 mod 64), char_of (0x80 + r mod 64)])"

definition hex_val :: "char \<Rightarrow> nat" where
  "hex_val c =
     (if is_digit c then byte c - 48
      else if c \<in> set ''abcdef'' then byte c - 87
      else byte c - 55)"

definition hex4 :: "bytes \<Rightarrow> nat option" where
  "hex4 s =
     (if 4 \<le> length s \<and> list_all is_hex (take 4 s)
      then Some (foldl (\<lambda>r c. r * 16 + hex_val c) 0 (take 4 s)) else None)"

definition getu4 :: "bytes \<Rightarrow> nat option" where
  "getu4 s =
     (case s of
        b # u # rest \<Rightarrow> if b = CHR 0x5C \<and> u = CHR ''u'' then hex4 rest else None
      | _ \<Rightarrow> None)"

definition utf16_pair :: "nat \<Rightarrow> nat option \<Rightarrow> nat option" where
  "utf16_pair r1 r2 =
     (case r2 of
        None \<Rightarrow> None
      | Some r \<Rightarrow>
          if 0xD800 \<le> r1 \<and> r1 < 0xDC00 \<and> 0xDC00 \<le> r \<and> r < 0xE000
          then Some (0x10000 + (r1 - 0xD800) * 1024 + (r - 0xDC00)) else None)"

definition unescape :: "char \<Rightarrow> char option" where
  "unescape e =
     (if e = CHR ''b'' then Some (CHR 0x08)
      else if e = CHR ''f'' then Some (CHR 0x0C)
      else if e = CHR ''n'' then Some (CHR 0x0A)
      else if e = CHR ''r'' then Some (CHR 0x0D)
      else if e = CHR ''t'' then Some (CHR 0x09)
      else if e \<in> set [CHR 0x22, CHR 0x5C, CHR ''/'', CHR 0x27] then Some e
      else None)"

fun unquote :: "bytes \<Rightarrow> bytes option" where
  "unquote [] = Some []"
| "unquote (c # cs) =
     (if c = CHR 0x5C then
        (case cs of
           [] \<Rightarrow> None
         | e # rest \<Rightarrow>
             if e = CHR ''u'' then
               (case hex4 rest of
                  None \<Rightarrow> None
                | Some rr \<Rightarrow>
                    if 0xD800 \<le> rr \<and> rr < 0xE000 then
                      (case utf16_pair rr (getu4 (drop 4 rest)) of
                         Some r \<Rightarrow> map_option ((@) (encode_rune r)) (unquote (drop 10 rest))
                       | None \<Rightarrow> map_option ((@) replacement) (unquote (drop 4 rest)))
                    else map_option ((@) (encode_rune rr)) (unquote (drop 4 rest)))
             else
               (case unescape e of
                  None \<Rightarrow> None
                | Some x \<Rightarrow> map_option ((#) x) (unquote rest)))
      else if c = CHR 0x22 \<or> byte c < 0x20 then None
      else if byte c < 0x80 then map_option ((#) c) (unquote cs)
      else
        (let n = utf8_len c cs in
         if n = 0 then map_option ((@) replacement) (unquote cs)
         else map_option ((@) (c # take (n - 1) cs)) (unquote (drop (n - 1) cs))))"

definition lex_begin :: "char \<Rightarrow> (token list \<times> lexstate) option" where
  "lex_begin c =
     (if isSpace c then Some ([], LBegin)
      else if c = CHR ''{'' then Some ([TLBrace], LBegin)
      else if c = CHR ''}'' then Some ([TRBrace], LBegin)
      else if c = CHR ''['' then Some ([TLBrack], LBegin)
      else if c = CHR '']'' then Some ([TRBrack], LBegin)
      else if c = CHR '':'' then Some ([TColon], LBegin)
      else if c = CHR '','' then Some ([TComma], LBegin)
      else if c = CHR 0x22 then Some ([], LString [])
      else if c = CHR ''-'' then Some ([], LNumber NNeg [c])
      else if c = CHR ''0'' then Some ([], LNumber NZero [c])
      else if is_digit c then Some ([], LNumber NInt [c])
      else if c = CHR ''t'' then Some ([], LLiteral ''rue'' TTrue)
      else if c = CHR ''f'' then Some ([], LLiteral ''alse'' TFalse)
      else if c = CHR ''n'' then Some ([], LLiteral ''ull'' TNull)
      else None)"

fun lex_step :: "lexstate \<Rightarrow> char \<Rightarrow> (token list \<times> lexstate) option" where
  "lex_step LBegin c = lex_begin c"
| "lex_step (LString acc) c =
     (if c = CHR 0x22 then
        (case unquote acc of None \<Rightarrow> None | Some s \<Rightarrow> Some ([TString s], LBegin))
      else if c = CHR 0x5C then Some ([], LStringEsc (acc @ [c]))
      else if byte c < 0x20 then None
      else Some ([], LString (acc @ [c])))"
| "lex_step (LStringEsc acc) c =
     (if c \<in> set [CHR ''b'', CHR ''f'', CHR ''n'', CHR ''r'', CHR ''t'', CHR 0x5C, CHR ''/'', CHR 0x22]
      then Some ([], LString (acc @ [c]))
      else if c = CHR ''u'' then Some ([], LStringU (acc @ [c]) 4)
      else None)"
| "lex_step (LStringU acc n) c =
     (if is_hex c
      then Some ([], if n \<le> 1 then LString (acc @ [c]) else LStringU (acc @ [c]) (n - 1))
      else None)"
| "lex_step (LNumber ns acc) c =
     (case num_step ns c of
        NumCont ns' \<Rightarrow> Some ([], LNumber ns' (acc @ [c]))
      | NumErr \<Rightarrow> None
      | NumEnd \<Rightarrow>
          (case lex_begin c of
             None \<Rightarrow> None
           | Some (ts, st) \<Rightarrow> Some (TNumber acc # ts, st)))"
| "lex_step (LLiteral [] tok) c = None"
| "lex_step (LLiteral (r # rs) tok) c =
     (if c = r then (if rs = [] then Some ([tok], LBegin) else Some ([], LLiteral rs tok))
      else None)"

fun lex_eof :: "lexstate \<Rightarrow> token list option" where
  "lex_eof LBegin = Some []"
| "lex_eof (LNumber ns acc) = (if num_final ns then Some [TNumber acc] else None)"
| "lex_eof _ = None"

fun scan :: "lexstate \<Rightarrow> bytes \<Rightarrow> token list option" where
  "scan st [] = lex_eof st"
| "scan st (c # cs) =
     (case lex_step st c of
        None \<Rightarrow> None
      | Some (ts, st') \<Rightarrow>
          (case scan st' cs of None \<Rightarrow> None | Some ts' \<Rightarrow> Some (ts @ ts')))"

datatype frame = InArray "json list" | InObject "(string \<times> json) list" string

datatype expect = BeginValue | BeginValueOrEmpty | BeginStringOrEmpty | BeginString
  | ObjectKey | EndValue

type_synonym config = "expect \<times> frame list \<times> json option"

definition maxNestingDepth :: nat where
  "maxNestingDepth = 10000"

fun deliver :: "json \<Rightarrow> frame list \<Rightarrow> config" where
  "deliver v [] = (EndValue, [], Some v)"
| "deliver v (InArray es # stk) = (EndValue, InArray (es @ [v]) # stk, None)"
| "deliver v (InObject ms k # stk) = (EndValue, InObject (ms @ [(k, v)]) k # stk, None)"

fun begin_value :: "token \<Rightarrow> frame list \<Rightarrow> config option" where
  "begin_value TLBrace stk =
     (if length stk < maxNestingDepth then Some (BeginStringOrEmpty, InObject [] [] # stk, None)
      else None)"
| "begin_value TLBrack stk =
     (if length stk < maxNestingDepth then Some (BeginValueOrEmpty, InArray [] # stk, None)
      else None)"
| "begin_value (TString s) stk = Some (deliver (JString s) stk)"
| "begin_value (TNumber n) stk = Some (deliver (JNumber n) stk)"
| "begin_value TTrue stk = Some (deliver (JBool True) stk)"
| "begin_value TFalse stk = Some (deliver (JBool False) stk)"
| "begin_value TNull stk = Some (deliver JNull stk)"
| "begin_value _ stk = None"

fun close_array :: "frame list \<Rightarrow> config option" where
  "close_array (InArray es # stk) = Some (deliver (JArray es) stk)"
| "close_array _ = None"

fun close_object :: "frame list \<Rightarrow> config option" where
  "close_object (InObject ms k # stk) = Some (deliver (JObject ms) stk)"
| "close_object _ = None"

fun begin_key :: "token \<Rightarrow> frame list \<Rightarrow> config option" where
  "begin_key (TString k) (InObject ms _ # stk) = Some (ObjectKey, InObject ms k # stk, None)"
| "begin_key _ _ = None"

fun end_value :: "token \<Rightarrow> frame list \<Rightarrow> config option" where
  "end_value t [] = None"
| "end_value t (InArray es # stk) =
     (if t = TComma then Some (BeginValue, InArray es # stk, None)
      else if t = TRBrack then close_array (InArray es # stk) else None)"
| "end_value t (InObject ms k # stk) =
     (if t = TComma then Some (BeginString, InObject ms k # stk, None)
      else if t = TRBrace then close_object (InObject ms k # stk) else None)"

fun parse_step :: "expect \<Rightarrow> frame list \<Rightarrow> token \<Rightarrow> config option" where
  "parse_step BeginValue stk t = begin_value t stk"
| "parse_step BeginValueOrEmpty stk t =
     (if t = TRBrack then close_array stk else begin_value t stk)"
| "parse_step BeginStringOrEmpty stk t =
     (if t = TRBrace then close_object stk else begin_key t stk)"
| "parse_step BeginString stk t = begin_key t stk"
| "parse_step ObjectKey stk t = (if t = TColon then Some (BeginValue, stk, None) else None)"
| "parse_step EndValue stk t = end_value t stk"

fun parse_tokens :: "config \<Rightarrow> token list \<Rightarrow> json option" where
  "parse_tokens (e, stk, res) [] = (if e = EndValue \<and> stk = [] then res else None)"
| "parse_tokens (e, stk, res) (t # ts) =
     (case parse_step e stk t of None \<Rightarrow> None | Some c \<Rightarrow> parse_tokens c ts)"

definition json_parse :: "bytes \<Rightarrow> json option" where
  "json_parse data =
     (case scan LBegin data of
        None \<Rightarrow> None
      | Some ts \<Rightarrow> parse_tokens (BeginValue, [], None) ts)"

subsection \<open>Decoding into the Response struct\<close>

text \<open>
  \<^verbatim>\<open>
  type Response struct {
      Success bool   `json:"success"`
      Code    int    `json:"error,omitempty"`
      Err     string `json:"message,omitempty"`
      Expiry  string `json:"expiry,omitempty"`
      Key     string `json:"key,omitempty"`
  }
  \<close>
\<close>

record Response =
  Success :: bool
  Code :: int
  Err :: string
  Expiry :: string
  Key :: string

definition zero_Response :: Response where
  "zero_Response = \<lparr>Success = False, Code = 0, Err = [], Expiry = [], Key = []\<rparr>"

text \<open>The error values of the package and of the library calls it makes:
  \<^verbatim>\<open>errors.New(text)\<close>, \<^verbatim>\<open>*os.PathError{Op, Path, Err}\<close>, \<^verbatim>\<open>*json.SyntaxError\<close> and
  \<^verbatim>\<open>*json.UnmarshalTypeError{Value, Type}\<close>. The transport and the file system may
  answer with any of them.\<close>

datatype error =
    ErrorString string
  | PathError string string string
  | SyntaxError
  | UnmarshalTypeError string string

datatype rfield = FSuccess | FCode | FErr | FExpiry | FKey

definition upper :: "char \<Rightarrow> char" where
  "upper c =
     (case map_of (zip ''abcdefghijklmnopqrstuvwxyz'' ''ABCDEFGHIJKLMNOPQRSTUVWXYZ'') c of
        None \<Rightarrow> c
      | Some u \<Rightarrow> u)"

text \<open>A key names a field when the two are equal under Unicode simple case folding.
  Besides the ASCII letters, only the long s (U+017F) and the Kelvin sign (U+212A)
  fold to a letter of the five field names.\<close>

fun fold_name :: "bytes \<Rightarrow> bytes" where
  "fold_name [] = []"
| "fold_name (c # cs) =
     (if c = CHR 0xC5 \<and> take 1 cs = [CHR 0xBF] then CHR ''S'' # fold_name (drop 1 cs)
      else if c = CHR 0xE2 \<and> take 2 cs = [CHR 0x84, CHR 0xAA] then CHR ''K'' # fold_name (drop 2 cs)
      else upper c # fold_name cs)"

definition field_named :: "bytes \<Rightarrow> rfield option" where
  "field_named k =
     map_of [(''SUCCESS'', FSuccess), (''ERROR'', FCode), (''MESSAGE'', FErr),
             (''EXPIRY'', FExpiry), (''KEY'', FKey)] (fold_name k)"

fun json_kind :: "json \<Rightarrow> string" where
  "json_kind JNull = ''null''"
| "json_kind (JBool b) = ''bool''"
| "json_kind (JNumber n) = ''number''"
| "json_kind (JString s) = ''string''"
| "json_kind (JArray es) = ''array''"
| "json_kind (JObject ms) = ''object''"

fun go_type :: "rfield \<Rightarrow> string" where
  "go_type FSuccess = ''bool''"
| "go_type FCode = ''int''"
| "go_type f = ''string''"

text \<open>\<^verbatim>\<open>strconv.ParseInt(s, 10, 64)\<close> on a JSON number literal: an optional minus sign
  and digits only, within the range of a 64-bit integer.\<close>

definition ParseInt :: "string \<Rightarrow> int option" where
  "ParseInt s =
     (let neg = (take 1 s = ''-''); ds = (if neg then drop 1 s else s) in
      if ds \<noteq> [] \<and> list_all is_digit ds then
        (let n = int (dec_val ds); v = (if neg then - n else n) in
         if - (2 ^ 63) \<le> v \<and> v < 2 ^ 63 then Some v else None)
      else None)"

text \<open>Storing one JSON value into a field: \<open>null\<close> leaves the field as it is, a value
  of the field's kind is stored, and any other value leaves the field as it is and
  reports an \<open>UnmarshalTypeError\<close>.\<close>

fun store :: "rfield \<Rightarrow> json \<Rightarrow> Response \<Rightarrow> Response \<times> error option" where
  "store f JNull r = (r, None)"
| "store FSuccess (JBool b) r = (r\<lparr>Success := b\<rparr>, None)"
| "store FCode (JNumber n) r =
     (case ParseInt n of
        Some i \<Rightarrow> (r\<lparr>Code := i\<rparr>, None)
      | None \<Rightarrow> (r, Some (UnmarshalTypeError (''number '' @ n) ''int'')))"
| "store FErr (JString s) r = (r\<lparr>Err := s\<rparr>, None)"
| "store FExpiry (JString s) r = (r\<lparr>Expiry := s\<rparr>, None)"
| "store FKey (JString s) r = (r\<lparr>Key := s\<rparr>, None)"
| "store f v r = (r, Some (UnmarshalTypeError (json_kind v) (go_type f)))"

text \<open>The members of an object are stored in their order; a key that names no field
  is skipped; the first error is kept and decoding goes on.\<close>

fun object_into :: "(string \<times> json) list \<Rightarrow> Response \<Rightarrow> error option \<Rightarrow> Response \<times> error option" where
  "object_into [] r saved = (r, saved)"
| "object_into ((k, v) # ms) r saved =
     (case field_named k of
        None \<Rightarrow> object_into ms r saved
      | Some f \<Rightarrow>
          (case store f v r of
             (r', e) \<Rightarrow> object_into ms r' (if saved = None then e else saved)))"

text \<open>\<^verbatim>\<open>json.Unmarshal(data, res)\<close>: the input is checked as a whole first, and a
  syntax error leaves \<open>res\<close> untouched.\<close>

definition Unmarshal :: "bytes \<Rightarrow> Response \<Rightarrow> Response \<times> error option" where
  "Unmarshal data r =
     (case json_parse data of
        None \<Rightarrow> (r, Some SyntaxError)
      | Some v \<Rightarrow>
          (case v of
             JObject ms \<Rightarrow> object_into ms r None
           | JNull \<Rightarrow> (r, None)
           | _ \<Rightarrow> (r, Some (UnmarshalTypeError (json_kind v) ''fileio.Response''))))"

text \<open>
  \<^verbatim>\<open>
  func parseJSON(data []byte) (*Response, error) {
      res := &Response{}
      if err := json.Unmarshal(data, res); err != nil { return res, err }
      if !res.Success { return res, errors.New(res.Err) }
      return res, nil
  }
  \<close>
\<close>

definition parseJSON :: "bytes \<Rightarrow> Response \<times> error option" where
  "parseJSON data =
     (case Unmarshal data zero_Response of
        (res, Some err) \<Rightarrow> (res, Some err)
      | (res, None) \<Rightarrow>
          if \<not> Success res then (res, Some (ErrorString (Err res))) else (res, None))"

section \<open>The world outside the package\<close>

text \<open>A byte stream that is read to its end: the bytes it delivers, and the error
  that ends it when it does not end in EOF.\<close>

record reader =
  content :: bytes
  fault :: "error option"

record http_response =
  StatusCode :: int
  Status :: string
  Body :: reader

text \<open>
  \<^verbatim>\<open>
  type httpClient interface {
      Get(url string) (*http.Response, error)
      Post(url string, bodyType string, body io.Reader) (*http.Response, error)
  }
  \<close>
\<close>

record httpClient =
  Get :: "string \<Rightarrow> error + http_response"
  Post :: "string \<Rightarrow> string \<Rightarrow> bytes \<Rightarrow> error + http_response"

datatype node = File reader | NoAccess error

datatype event =
    EvGet string
  | EvPost string string bytes
  | EvOpen string
  | EvCreate string
  | EvCloseFile string
  | EvCloseBody

text \<open>The package variables \<^verbatim>\<open>URL\<close> and \<^verbatim>\<open>api\<close>, the boundary that
  \<^verbatim>\<open>multipart.NewWriter\<close> draws at random, the file system with its faults, and the
  calls made to the outside so far, the oldest first.\<close>

record world =
  URL :: string
  api :: httpClient
  boundary :: string
  files :: "string \<rightharpoonup> node"
  create_fault :: "string \<Rightarrow> error option"
  write_fault :: "string \<Rightarrow> (nat \<times> error) option"
  trace :: "event list"

definition emit :: "event \<Rightarrow> world \<Rightarrow> world" where
  "emit e w = w\<lparr>trace := trace w @ [e]\<rparr>"

definition os_Open :: "world \<Rightarrow> string \<Rightarrow> error + reader" where
  "os_Open w p =
     (case files w p of
        None \<Rightarrow> Inl (PathError ''open'' p ''no such file or directory'')
      | Some (NoAccess e) \<Rightarrow> Inl e
      | Some (File f) \<Rightarrow> Inr f)"

text \<open>\<^verbatim>\<open>os.Create\<close> makes the file or truncates it.\<close>

definition os_Create :: "world \<Rightarrow> string \<Rightarrow> world \<times> error option" where
  "os_Create w p =
     (case create_fault w p of
        Some e \<Rightarrow> (emit (EvCreate p) w, Some e)
      | None \<Rightarrow>
          (emit (EvCreate p) (w\<lparr>files := (files w)(p \<mapsto> File \<lparr>content = [], fault = None\<rparr>)\<rparr>), None))"

definition write_file :: "world \<Rightarrow> string \<Rightarrow> bytes \<Rightarrow> world" where
  "write_file w p d = w\<lparr>files := (files w)(p \<mapsto> File \<lparr>content = d, fault = None\<rparr>)\<rparr>"

text \<open>\<^verbatim>\<open>io.Copy(out, src)\<close> into a file just created: a write that fails stops the
  copy with what was written so far; otherwise the copy ends as the source does.\<close>

definition copy_to_file :: "world \<Rightarrow> string \<Rightarrow> reader \<Rightarrow> world \<times> error option" where
  "copy_to_file w p src =
     (case write_fault w p of
        None \<Rightarrow> (write_file w p (content src), fault src)
      | Some (n, e) \<Rightarrow>
          if n < length (content src) then (write_file w p (take n (content src)), Some e)
          else (write_file w p (content src), fault src))"

definition ReadAll :: "reader \<Rightarrow> error + bytes" where
  "ReadAll r = (case fault r of Some e \<Rightarrow> Inl e | None \<Rightarrow> Inr (content r))"

definition StatusOK :: int where
  "StatusOK = 200"

section \<open>The multipart writer\<close>

record mp_writer =
  buf :: bytes
  bnd :: string
  lastpart :: bool

definition crlf :: bytes where
  "crlf = [CHR 0x0D, CHR 0x0A]"

definition NewWriter :: "string \<Rightarrow> mp_writer" where
  "NewWriter b = \<lparr>buf = [], bnd = b, lastpart = False\<rparr>"

text \<open>\<^verbatim>\<open>escapeQuotes\<close>, the replacer the writer applies to the field name and to
  the file name before it puts them between double quotes: a backslash and a double
  quote get a backslash in front, a line feed becomes \<open>%0A\<close> and a carriage return
  \<open>%0D\<close>; every other byte stays.\<close>

definition escapeQuotes :: "string \<Rightarrow> string" where
  "escapeQuotes s =
     concat (map (\<lambda>c. if c = CHR 0x5C then [CHR 0x5C, CHR 0x5C]
                       else if c = CHR 0x22 then [CHR 0x5C, CHR 0x22]
                       else if c = CHR 0x0A then ''%0A''
                       else if c = CHR 0x0D then ''%0D''
                       else [c]) s)"

text \<open>\<^verbatim>\<open>CreatePart\<close> writes the boundary line and the header lines, sorted by key,
  to the buffer. Writing to a \<^verbatim>\<open>bytes.Buffer\<close> does not fail.\<close>

definition CreatePart :: "mp_writer \<Rightarrow> (string \<times> string) list \<Rightarrow> error + mp_writer" where
  "CreatePart w hdr =
     Inr (w\<lparr>buf := buf w
              @ (if lastpart w then crlf @ ''--'' @ bnd w @ crlf else ''--'' @ bnd w @ crlf)
              @ concat (map (\<lambda>(k, v). k @ '': '' @ v @ crlf) hdr)
              @ crlf,
            lastpart := True\<rparr>)"

definition disposition :: "string \<Rightarrow> string \<Rightarrow> string" where
  "disposition fieldname filename =
     ''form-data; name='' @ [CHR 0x22] @ escapeQuotes fieldname @ [CHR 0x22]
       @ ''; filename='' @ [CHR 0x22] @ escapeQuotes filename @ [CHR 0x22]"

definition CreateFormFile :: "mp_writer \<Rightarrow> string \<Rightarrow> string \<Rightarrow> error + mp_writer" where
  "CreateFormFile w fieldname filename =
     CreatePart w [(''Content-Disposition'', disposition fieldname filename),
                   (''Content-Type'', ''application/octet-stream'')]"

definition part_Write :: "mp_writer \<Rightarrow> bytes \<Rightarrow> mp_writer" where
  "part_Write w d = w\<lparr>buf := buf w @ d\<rparr>"

definition Close :: "mp_writer \<Rightarrow> mp_writer" where
  "Close w = w\<lparr>buf := buf w @ crlf @ ''--'' @ bnd w @ ''--'' @ crlf, lastpart := False\<rparr>"

text \<open>\<^verbatim>\<open>FormDataContentType\<close> quotes a boundary that holds a space or one of the
  special characters of RFC 2045. The boundaries \<^verbatim>\<open>NewWriter\<close> draws are
  hexadecimal digits and are never quoted.\<close>

definition special_chars :: string where
  "special_chars = ''()<>@,;:'' @ [CHR 0x5C, CHR 0x22] @ ''/[]?= ''"

definition boundary_param :: "string \<Rightarrow> string" where
  "boundary_param b =
     (if list_ex (\<lambda>c. c \<in> set special_chars) b then [CHR 0x22] @ b @ [CHR 0x22] else b)"

definition FormDataContentType :: "mp_writer \<Rightarrow> string" where
  "FormDataContentType w = ''multipart/form-data; boundary='' @ boundary_param (bnd w)"

section \<open>The package\<close>

text \<open>
  \<^verbatim>\<open>
  func createBody(file string) (*bytes.Buffer, string, error) {
      body := &bytes.Buffer{}
      w := multipart.NewWriter(body)
      defer func() { _ = w.Close() }()
      fw, err := w.CreateFormFile("file", file)
      if err != nil { return nil, "", err }
      f, err := os.Open(file)
      if err != nil { return nil, "", err }
      defer func() { _ = f.Close() }()
      if _, err = io.Copy(fw, f); err != nil { return nil, "", err }
      return body, w.FormDataContentType(), nil
  }
  \<close>
  The deferred \<^verbatim>\<open>w.Close()\<close> runs after the results are set and writes the closing
  boundary into the buffer the returned pointer refers to, so the caller reads the
  closed body.
\<close>

definition createBody :: "world \<Rightarrow> string \<Rightarrow> world \<times> (error + bytes \<times> string)" where
  "createBody w file =
     (case CreateFormFile (NewWriter (boundary w)) ''file'' file of
        Inl e \<Rightarrow> (w, Inl e)
      | Inr fw \<Rightarrow>
          (case os_Open w file of
             Inl e \<Rightarrow> (emit (EvOpen file) w, Inl e)
           | Inr f \<Rightarrow>
               (case fault f of
                  Some e \<Rightarrow> (emit (EvCloseFile file) (emit (EvOpen file) w), Inl e)
                | None \<Rightarrow>
                    (let fw' = part_Write fw (content f) in
                     (emit (EvCloseFile file) (emit (EvOpen file) w),
                      Inr (buf (Close fw'), FormDataContentType fw'))))))"

text \<open>
  \<^verbatim>\<open>
  func postBody(file, url string) (*Response, error) {
      body, bodyType, err := createBody(file)
      if err != nil { return nil, err }
      resp, err := api.Post(url, bodyType, body)
      if err != nil { return nil, err }
      defer func() { _ = resp.Body.Close() }()
      rs, err := ioutil.ReadAll(resp.Body)
      if err != nil { return nil, err }
      return parseJSON(rs)
  }
  \<close>
\<close>

definition postBody :: "world \<Rightarrow> string \<Rightarrow> string \<Rightarrow> world \<times> Response option \<times> error option" where
  "postBody w file url =
     (case createBody w file of
        (w1, Inl e) \<Rightarrow> (w1, None, Some e)
      | (w1, Inr (body, bodyType)) \<Rightarrow>
          (case Post (api w1) url bodyType body of
             Inl e \<Rightarrow> (emit (EvPost url bodyType body) w1, None, Some e)
           | Inr resp \<Rightarrow>
               (case ReadAll (Body resp) of
                  Inl e \<Rightarrow> (emit EvCloseBody (emit (EvPost url bodyType body) w1), None, Some e)
                | Inr rs \<Rightarrow>
                    (case parseJSON rs of
                       (res, err) \<Rightarrow>
                         (emit EvCloseBody (emit (EvPost url bodyType body) w1), Some res, err)))))"

text \<open>What a call of an exported function comes to: its results, or a panic (the
  dereference of a nil \<^verbatim>\<open>*Response\<close>).\<close>

datatype 'a outcome = Return 'a | Panic

text \<open>
  \<^verbatim>\<open>
  func Upload(file string) (string, error) {
      rs, err := postBody(file, URL)
      if err != nil { return "", err }
      return rs.Key, nil
  }
  \<close>
\<close>

definition Upload :: "world \<Rightarrow> string \<Rightarrow> world \<times> (string \<times> error option) outcome" where
  "Upload w file =
     (case postBody w file (URL w) of
        (w', rs, Some err) \<Rightarrow> (w', Return ([], Some err))
      | (w', Some rs, None) \<Rightarrow> (w', Return (Key rs, None))
      | (w', None, None) \<Rightarrow> (w', Panic))"

text \<open>
  \<^verbatim>\<open>
  func UploadWithExpire(file string, days int) (string, string, error) {
      rs, err := postBody(file, URL+"/?expires="+expires(days))
      if err != nil { return "", "", err }
      return rs.Key, rs.Expiry, nil
  }
  \<close>
\<close>

definition UploadWithExpire ::
  "world \<Rightarrow> string \<Rightarrow> int \<Rightarrow> world \<times> (string \<times> string \<times> error option) outcome" where
  "UploadWithExpire w file days =
     (case postBody w file (URL w @ ''/?expires='' @ expires days) of
        (w', rs, Some err) \<Rightarrow> (w', Return ([], [], Some err))
      | (w', Some rs, None) \<Rightarrow> (w', Return (Key rs, Expiry rs, None))
      | (w', None, None) \<Rightarrow> (w', Panic))"

text \<open>
  \<^verbatim>\<open>
  func Download(key, file string) (err error) {
      var resp *http.Response
      if resp, err = api.Get(URL + "/" + key); err != nil { return }
      defer func() { _ = resp.Body.Close() }()
      if resp.StatusCode != http.StatusOK { err = errors.New(resp.Status); return }
      var out *os.File
      if out, err = os.Create(file); err != nil { return }
      defer func() { _ = out.Close() }()
      _, err = io.Copy(out, resp.Body)
      return
  }
  \<close>
\<close>

definition Download :: "world \<Rightarrow> string \<Rightarrow> string \<Rightarrow> world \<times> error option" where
  "Download w key file =
     (let url = URL w @ ''/'' @ key; w1 = emit (EvGet url) w in
      case Get (api w) url of
        Inl e \<Rightarrow> (w1, Some e)
      | Inr resp \<Rightarrow>
          if StatusCode resp \<noteq> StatusOK then (emit EvCloseBody w1, Some (ErrorString (Status resp)))
          else
            (case os_Create w1 file of
               (w2, Some e) \<Rightarrow> (emit EvCloseBody w2, Some e)
             | (w2, None) \<Rightarrow>
                 (case copy_to_file w2 file (Body resp) of
                    (w3, err) \<Rightarrow> (emit EvCloseBody (emit (EvCloseFile file) w3), err))))"

section \<open>Notions of the specification\<close>

text \<open>The last element of a path, as \<^verbatim>\<open>filepath.Base\<close> gives it: trailing slashes
  are dropped, then everything up to the last slash; an empty path is \<open>.\<close> and a
  path of slashes is \<open>/\<close>.\<close>

definition Base :: "string \<Rightarrow> string" where
  "Base path =
     (if path = [] then ''.''
      else
        (let p = rev (dropWhile (\<lambda>c. c = CHR ''/'') (rev path));
             e = rev (takeWhile (\<lambda>c. c \<noteq> CHR ''/'') (rev p))
         in if e = [] then ''/'' else e))"

text \<open>A multipart/form-data body as a list of parts, and its bytes on the wire for a
  boundary, written out here without any function of the writer: each part after a
  boundary line, with its content disposition and content type, and the closing
  boundary last. \<open>field_name\<close> and \<open>file_name\<close> are the texts that stand between the
  double quotes of the \<open>name\<close> and \<open>filename\<close> parameters, byte for byte.\<close>

record part =
  field_name :: string
  file_name :: string
  part_type :: string
  part_data :: bytes

definition line_break :: bytes where
  "line_break = [CHR 0x0D, CHR 0x0A]"

definition quoted :: "string \<Rightarrow> bytes" where
  "quoted s = [CHR 0x22] @ s @ [CHR 0x22]"

definition part_bytes :: "string \<Rightarrow> part \<Rightarrow> bytes" where
  "part_bytes b p =
     ''--'' @ b @ line_break
       @ ''Content-Disposition: form-data; name='' @ quoted (field_name p)
       @ ''; filename='' @ quoted (file_name p) @ line_break
       @ ''Content-Type: '' @ part_type p @ line_break
       @ line_break
       @ part_data p"

fun join_parts :: "bytes list \<Rightarrow> bytes" where
  "join_parts [] = []"
| "join_parts [x] = x"
| "join_parts (x # y # ys) = x @ line_break @ join_parts (y # ys)"

definition form_bytes :: "string \<Rightarrow> part list \<Rightarrow> bytes" where
  "form_bytes b ps =
     join_parts (map (part_bytes b) ps) @ line_break @ ''--'' @ b @ ''--'' @ line_break"

text \<open>Reading a body back, as the receiver of the form does. \<open>read_quoted\<close> takes a
  quoted string from after its opening double quote: a backslash makes the next byte
  stand for itself, and the first double quote without a backslash ends the string.
  \<open>read_disposition\<close> reads the field name and the file name of the first part of a
  body with a given boundary.\<close>

fun strip_prefix :: "bytes \<Rightarrow> bytes \<Rightarrow> bytes option" where
  "strip_prefix [] ys = Some ys"
| "strip_prefix (x # xs) [] = None"
| "strip_prefix (x # xs) (y # ys) = (if x = y then strip_prefix xs ys else None)"

fun read_quoted :: "bytes \<Rightarrow> (string \<times> bytes) option" where
  "read_quoted [] = None"
| "read_quoted (c # cs) =
     (if c = CHR 0x22 then Some ([], cs)
      else if c = CHR 0x5C then
        (case cs of
           [] \<Rightarrow> None
         | d # ds \<Rightarrow>
             (case read_quoted ds of None \<Rightarrow> None | Some (v, r) \<Rightarrow> Some (d # v, r)))
      else
        (case read_quoted cs of None \<Rightarrow> None | Some (v, r) \<Rightarrow> Some (c # v, r)))"

definition read_disposition :: "string \<Rightarrow> bytes \<Rightarrow> (string \<times> string) option" where
  "read_disposition b body =
     (case strip_prefix
             (''--'' @ b @ [CHR 0x0D, CHR 0x0A] @ ''Content-Disposition: form-data; name=''
                @ [CHR 0x22]) body of
        None \<Rightarrow> None
      | Some r1 \<Rightarrow>
          (case read_quoted r1 of
             None \<Rightarrow> None
           | Some (name, r2) \<Rightarrow>
               (case strip_prefix (''; filename='' @ [CHR 0x22]) r2 of
                  None \<Rightarrow> None
                | Some r3 \<Rightarrow>
                    (case read_quoted r3 of
                       None \<Rightarrow> None
                     | Some (fname, r4) \<Rightarrow> Some (name, fname)))))"

text \<open>The upload protocol in the words of the specification (section 4.4): build the
  multipart body, issue the POST, read the whole response body, decode it; the first
  step that fails gives its error, and success gives the key and the expiry.\<close>

definition spec_protocol :: "world \<Rightarrow> string \<Rightarrow> string \<Rightarrow> error + string \<times> string" where
  "spec_protocol w file url =
     (case snd (createBody w file) of
        Inl e \<Rightarrow> Inl e
      | Inr (body, bodyType) \<Rightarrow>
          (case Post (api w) url bodyType body of
             Inl e \<Rightarrow> Inl e
           | Inr resp \<Rightarrow>
               (case ReadAll (Body resp) of
                  Inl e \<Rightarrow> Inl e
                | Inr rs \<Rightarrow>
                    (case parseJSON rs of
                       (res, Some e) \<Rightarrow> Inl e
                     | (res, None) \<Rightarrow> Inr (Key res, Expiry res)))))"

section \<open>Observing the calls\<close>

text \<open>The POST requests of a trace (URL, content type, body) and the paths handed to
  \<^verbatim>\<open>os.Create\<close>, in the order of the calls.\<close>

fun posts :: "event list \<Rightarrow> (string \<times> string \<times> bytes) list" where
  "posts [] = []"
| "posts (EvPost u t b # es) = (u, t, b) # posts es"
| "posts (e # es) = posts es"

fun creates :: "event list \<Rightarrow> string list" where
  "creates [] = []"
| "creates (EvCreate p # es) = p # creates es"
| "creates (e # es) = creates es"

section \<open>Example worlds\<close>

definition ok_response :: "bytes \<Rightarrow> http_response" where
  "ok_response b = \<lparr>StatusCode = 200, Status = ''200 OK'', Body = \<lparr>content = b, fault = None\<rparr>\<rparr>"

definition not_found :: http_response where
  \<open>not_found =
     \<lparr>StatusCode = 404, Status = ''404 Not Found'',
      Body = \<lparr>content = ''{"success":false,"error":404,"message":"Not Found"}'', fault = None\<rparr>\<rparr>\<close>

text \<open>A service that answers by URL, as the test double of the package does, here
  with a key of its own for each upload URL.\<close>

definition url_client :: httpClient where
  \<open>url_client =
     \<lparr>Get = (\<lambda>u. if u = ''https://file.io/2ojE41'' then Inr (ok_response ''This is a test'')
                  else Inr not_found),
      Post = (\<lambda>u t b.
        if u = ''https://file.io'' then Inr (ok_response ''{"success":true,"key":"2ojE41"}'')
        else if u = ''https://file.io/?expires=2w''
          then Inr (ok_response ''{"success":true,"key":"aQbnDJ","expiry":"14 days"}'')
        else if u = ''https://file.io/?expires=14''
          then Inr (ok_response ''{"success":true,"key":"Zb4Tq9","expiry":"14 days"}'')
        else if u = ''https://file.io/?expires=666''
          then Inr (ok_response ''{"success":false,"error":500,"message":"Internal error"}'')
        else if u = ''https://file.io/?expires=999'' then Inr (ok_response [])
        else Inr not_found)\<rparr>\<close>

definition demo_world :: world where
  "demo_world =
     \<lparr>URL = ''https://file.io'', api = url_client, boundary = ''5f3a9c'',
      files = [''/data/file.txt'' \<mapsto> File \<lparr>content = ''This is a test'', fault = None\<rparr>],
      create_fault = (\<lambda>p. None), write_fault = (\<lambda>p. None), trace = []\<rparr>"

text \<open>A service that gives the same answer whatever the URL, and a transport that
  fails.\<close>

definition const_client :: "bytes \<Rightarrow> httpClient" where
  "const_client b = \<lparr>Get = (\<lambda>u. Inr (ok_response b)), Post = (\<lambda>u t d. Inr (ok_response b))\<rparr>"

definition no_transport :: httpClient where
  "no_transport =
     \<lparr>Get = (\<lambda>u. Inl (ErrorString ''No transport'')),
      Post = (\<lambda>u t d. Inl (ErrorString ''No transport''))\<rparr>"

definition const_world :: "bytes \<Rightarrow> world" where
  "const_world b = demo_world\<lparr>api := const_client b\<rparr>"

definition offline_world :: world where
  "offline_world = demo_world\<lparr>api := no_transport\<rparr>"

text \<open>A world whose only file has a line feed in its name.\<close>

definition newline_world :: world where
  "newline_world =
     demo_world\<lparr>files := [''new'' @ [CHR 0x0A] @ ''line.txt'' \<mapsto> File \<lparr>content = ''x'', fault = None\<rparr>]\<rparr>"

section \<open>Facts about the arithmetic\<close>

lemma go_quo_pos: "0 \<le> a \<Longrightarrow> 0 < b \<Longrightarrow> go_quo a b = a div b"
  by (simp add: go_quo_def)

lemma go_rem_pos: "0 \<le> a \<Longrightarrow> 0 < b \<Longrightarrow> go_rem a b = a mod b"
  by (simp add: go_rem_def go_quo_pos minus_mult_div_eq_mod)

lemma go_rem_zero_iff: "0 \<le> a \<Longrightarrow> 0 < b \<Longrightarrow> go_rem a b = 0 \<longleftrightarrow> b dvd a"
  by (simp add: go_rem_pos dvd_eq_mod_eq_0)

lemma digit_val_digit_char: "d < 10 \<Longrightarrow> digit_val (digit_char d) = d"
proof -
  assume "d < 10"
  then have "d \<in> {0, 1, 2, 3, 4, 5, 6, 7, 8, 9}"
    by auto
  then show ?thesis
    by (auto simp: digit_val_def digit_char_def)
qed

lemma dec_digits_small: "n < 10 \<Longrightarrow> dec_digits n = [digit_char n]"
  by (simp add: dec_digits.simps)

lemma dec_digits_0 [simp]: "dec_digits 0 = ''0''"
  by (simp add: dec_digits_small digit_char_def)

lemma dec_digits_1 [simp]: "dec_digits (Suc 0) = ''1''"
  by (simp add: dec_digits_small digit_char_def)

lemma dec_digits_numeral [simp]:
  "dec_digits (numeral k) =
     (if numeral k < (10::nat) then [digit_char (numeral k)]
      else dec_digits (numeral k div 10) @ [digit_char (numeral k mod 10)])"
  by (rule dec_digits.simps)

lemma dec_val_snoc: "dec_val (s @ [c]) = 10 * dec_val s + digit_val c"
  by (simp add: dec_val_def)

lemma dec_val_dec_digits: "dec_val (dec_digits n) = n"
proof (induction n rule: dec_digits.induct)
  case (1 n)
  show ?case
  proof (cases "n < 10")
    case True
    then show ?thesis
      by (subst dec_digits.simps) (simp add: dec_val_def digit_val_digit_char)
  next
    case False
    with 1 have "dec_val (dec_digits (n div 10)) = n div 10" by simp
    with False show ?thesis
      by (subst dec_digits.simps) (simp add: dec_val_snoc digit_val_digit_char)
  qed
qed

lemma Itoa_nonneg: "0 \<le> i \<Longrightarrow> Itoa i = dec_digits (nat i)"
  by (simp add: Itoa_def)

lemma Itoa_14: "Itoa 14 = ''14''"
  by (simp add: Itoa_def digit_char_def)

lemma Itoa_eq_14D: "0 \<le> i \<Longrightarrow> Itoa i = ''14'' \<Longrightarrow> i = 14"
proof -
  assume nn: "0 \<le> i" and eq: "Itoa i = ''14''"
  have "dec_val (Itoa i) = nat i"
    using nn by (simp add: Itoa_nonneg dec_val_dec_digits)
  moreover have "dec_val ''14'' = 14"
    by (simp add: dec_val_def digit_val_def)
  ultimately have "nat i = 14" using eq by simp
  with nn show "i = 14" by simp
qed

lemma snoc_eq_14D: "s @ [c] = ''14'' \<Longrightarrow> c = CHR ''4''"
  by (drule arg_cong [where f = last]) simp

lemma expires_pos:
  assumes "1 \<le> days"
  shows "expires days =
     (if 7 dvd days then Itoa (days div 7) @ ''w''
      else if 31 dvd days then Itoa (days div 31) @ ''m''
      else if 365 dvd days then Itoa (days div 365) @ ''y''
      else Itoa days)"
  using assms by (simp add: expires_def go_rem_zero_iff go_quo_pos)

lemma expires_default: "days < 1 \<Longrightarrow> expires days = ''14''"
  by (simp add: expires_def DefaultExpires_def Itoa_14)

lemma expires_pos_neq_14:
  assumes "1 \<le> days"
  shows "expires days \<noteq> ''14''"
proof
  assume eq: "expires days = ''14''"
  consider (w) "7 dvd days"
    | (m) "\<not> 7 dvd days" "31 dvd days"
    | (y) "\<not> 7 dvd days" "\<not> 31 dvd days" "365 dvd days"
    | (d) "\<not> 7 dvd days" "\<not> 31 dvd days" "\<not> 365 dvd days"
    by blast
  then show False
  proof cases
    case w
    with assms eq have "Itoa (days div 7) @ ''w'' = ''14''"
      by (simp add: expires_pos)
    then show False by (auto dest: snoc_eq_14D)
  next
    case m
    with assms eq have "Itoa (days div 31) @ ''m'' = ''14''"
      by (simp add: expires_pos)
    then show False by (auto dest: snoc_eq_14D)
  next
    case y
    with assms eq have "Itoa (days div 365) @ ''y'' = ''14''"
      by (simp add: expires_pos)
    then show False by (auto dest: snoc_eq_14D)
  next
    case d
    with assms eq have "Itoa days = ''14''"
      by (simp add: expires_pos)
    with assms have "days = 14"
      using Itoa_eq_14D [of days] by simp
    with d show False by simp
  qed
qed

lemma dvd_31_mult_7D: "(7::int) dvd 31 * n \<Longrightarrow> 7 dvd n"
proof -
  assume h: "7 dvd 31 * n"
  have "7 dvd 7 * (9 * n) - 2 * (31 * n)"
    by (intro dvd_diff dvd_triv_left dvd_mult h)
  moreover have "7 * (9 * n) - 2 * (31 * n) = n" by simp
  ultimately show ?thesis by simp
qed

lemma dvd_365_mult_7D: "(7::int) dvd 365 * n \<Longrightarrow> 7 dvd n"
proof -
  assume h: "7 dvd 365 * n"
  have "7 dvd 365 * n - 7 * (52 * n)"
    by (intro dvd_diff dvd_triv_left h)
  moreover have "365 * n - 7 * (52 * n) = n" by simp
  ultimately show ?thesis by simp
qed

lemma dvd_365_mult_31D: "(31::int) dvd 365 * n \<Longrightarrow> 31 dvd n"
proof -
  assume h: "31 dvd 365 * n"
  have "31 dvd 31 * (106 * n) - 9 * (365 * n)"
    by (intro dvd_diff dvd_triv_left dvd_mult h)
  moreover have "31 * (106 * n) - 9 * (365 * n) = n" by simp
  ultimately show ?thesis by simp
qed

section \<open>Facts about the package\<close>

lemma posts_append [simp]: "posts (xs @ ys) = posts xs @ posts ys"
  by (induction xs rule: posts.induct) simp_all

lemma creates_append [simp]: "creates (xs @ ys) = creates xs @ creates ys"
  by (induction xs rule: creates.induct) simp_all

lemma trace_emit [simp]: "trace (emit e w) = trace w @ [e]"
  by (simp add: emit_def)

lemma files_emit [simp]: "files (emit e w) = files w"
  by (simp add: emit_def)

lemma api_emit [simp]: "api (emit e w) = api w"
  by (simp add: emit_def)

lemma URL_emit [simp]: "URL (emit e w) = URL w"
  by (simp add: emit_def)

lemma createBody_world:
  "createBody w file = (w1, r) \<Longrightarrow>
     api w1 = api w \<and> URL w1 = URL w \<and> files w1 = files w \<and> posts (trace w1) = posts (trace w)"
  by (auto simp: createBody_def CreateFormFile_def CreatePart_def Let_def
      split: sum.splits option.splits)

lemma createBody_open_fails:
  "os_Open w file = Inl e \<Longrightarrow> createBody w file = (emit (EvOpen file) w, Inl e)"
  by (simp add: createBody_def CreateFormFile_def CreatePart_def)

lemma postBody_createBody_fails:
  "createBody w file = (w1, Inl e) \<Longrightarrow> postBody w file url = (w1, None, Some e)"
  by (simp add: postBody_def)

lemma postBody_Post_fails:
  "createBody w file = (w1, Inr (body, ct)) \<Longrightarrow> Post (api w) url ct body = Inl e \<Longrightarrow>
     postBody w file url = (emit (EvPost url ct body) w1, None, Some e)"
  by (frule createBody_world) (simp add: postBody_def)

lemma postBody_ReadAll_fails:
  "createBody w file = (w1, Inr (body, ct)) \<Longrightarrow> Post (api w) url ct body = Inr resp \<Longrightarrow>
   ReadAll (Body resp) = Inl e \<Longrightarrow>
     postBody w file url = (emit EvCloseBody (emit (EvPost url ct body) w1), None, Some e)"
  by (frule createBody_world) (simp add: postBody_def)

lemma postBody_parsed:
  "createBody w file = (w1, Inr (body, ct)) \<Longrightarrow> Post (api w) url ct body = Inr resp \<Longrightarrow>
   ReadAll (Body resp) = Inr rs \<Longrightarrow>
     postBody w file url =
       (emit EvCloseBody (emit (EvPost url ct body) w1), Some (fst (parseJSON rs)), snd (parseJSON rs))"
  by (frule createBody_world) (simp add: postBody_def split: prod.splits)

lemma parseJSON_error_iff: "snd (parseJSON data) = None \<longleftrightarrow>
    snd (Unmarshal data zero_Response) = None \<and> Success (fst (Unmarshal data zero_Response))"
  by (auto simp: parseJSON_def split: prod.splits option.splits)

lemma parseJSON_not_success: "\<not> Success (fst (parseJSON data)) \<Longrightarrow> snd (parseJSON data) \<noteq> None"
  by (auto simp: parseJSON_def split: prod.splits option.splits)

lemma postBody_steps:
  obtains (body_fails) w1 e where "createBody w file = (w1, Inl e)"
      and "postBody w file url = (w1, None, Some e)"
  | (post_fails) w1 body ct e where "createBody w file = (w1, Inr (body, ct))"
      and "Post (api w) url ct body = Inl e"
      and "postBody w file url = (emit (EvPost url ct body) w1, None, Some e)"
  | (read_fails) w1 body ct resp e where "createBody w file = (w1, Inr (body, ct))"
      and "Post (api w) url ct body = Inr resp" and "ReadAll (Body resp) = Inl e"
      and "postBody w file url = (emit EvCloseBody (emit (EvPost url ct body) w1), None, Some e)"
  | (decoded) w1 body ct resp rs where "createBody w file = (w1, Inr (body, ct))"
      and "Post (api w) url ct body = Inr resp" and "ReadAll (Body resp) = Inr rs"
      and "postBody w file url =
        (emit EvCloseBody (emit (EvPost url ct body) w1), Some (fst (parseJSON rs)), snd (parseJSON rs))"
proof (cases "createBody w file")
  case (Pair w1 r)
  show ?thesis
  proof (cases r)
    case (Inl e)
    with Pair body_fails show ?thesis
      by (simp add: postBody_createBody_fails)
  next
    case (Inr bc)
    obtain body ct where bc: "bc = (body, ct)" by (cases bc)
    note cb = Pair [unfolded Inr bc]
    show ?thesis
    proof (cases "Post (api w) url ct body")
      case (Inl e)
      with cb post_fails show ?thesis
        by (simp add: postBody_Post_fails)
    next
      case post: (Inr resp)
      show ?thesis
      proof (cases "ReadAll (Body resp)")
        case (Inl e)
        with cb post read_fails show ?thesis
          by (simp add: postBody_ReadAll_fails)
      next
        case (Inr rs)
        with cb post decoded show ?thesis
          by (simp add: postBody_parsed)
      qed
    qed
  qed
qed

lemma parseJSON_ok_success: "snd (parseJSON data) = None \<Longrightarrow> Success (fst (parseJSON data))"
  using parseJSON_not_success [of data] by blast

lemma postBody_no_error:
  "postBody w file url = (w', rs, None) \<Longrightarrow> \<exists>r. rs = Some r \<and> Success r"
  by (cases rule: postBody_steps [of w "file" url]) (auto dest: parseJSON_ok_success)

lemma postBody_not_success:
  "postBody w file url = (w', Some r, err) \<Longrightarrow> \<not> Success r \<Longrightarrow> err \<noteq> None"
  by (cases rule: postBody_steps [of w "file" url]) (auto dest!: parseJSON_not_success)

lemma Upload_never_panics: "snd (Upload w file) \<noteq> Panic"
  by (cases rule: postBody_steps [of w "file" "URL w"])
    (auto simp: Upload_def split: option.splits)

lemma UploadWithExpire_never_panics: "snd (UploadWithExpire w file days) \<noteq> Panic"
  by (cases rule: postBody_steps [of w "file" "URL w @ ''/?expires='' @ expires days"])
    (auto simp: UploadWithExpire_def split: option.splits)

lemma Upload_error:
  "postBody w file (URL w) = (w', rs, Some e) \<Longrightarrow> Upload w file = (w', Return ([], Some e))"
  by (simp add: Upload_def split: option.splits)

lemma Upload_ok:
  "postBody w file (URL w) = (w', Some r, None) \<Longrightarrow> Upload w file = (w', Return (Key r, None))"
  by (simp add: Upload_def)

lemma UploadWithExpire_error:
  "postBody w file (URL w @ ''/?expires='' @ expires days) = (w', rs, Some e) \<Longrightarrow>
     UploadWithExpire w file days = (w', Return ([], [], Some e))"
  by (simp add: UploadWithExpire_def split: option.splits)

lemma UploadWithExpire_ok:
  "postBody w file (URL w @ ''/?expires='' @ expires days) = (w', Some r, None) \<Longrightarrow>
     UploadWithExpire w file days = (w', Return (Key r, Expiry r, None))"
  by (simp add: UploadWithExpire_def)

lemma json_parse_empty: "json_parse [] = None"
  by (simp add: json_parse_def)

named_theorems json_eval

lemmas [json_eval] = json_parse_def lex_begin_def isSpace_def is_digit_def is_hex_def is_e_def
  byte_def maxNestingDepth_def unescape_def

named_theorems decode_eval

lemmas [decode_eval] = parseJSON_def Unmarshal_def field_named_def upper_def ParseInt_def
  dec_val_def digit_val_def is_digit_def zero_Response_def

lemma escapeQuotes_Nil [simp]: "escapeQuotes [] = []"
  by (simp add: escapeQuotes_def)

lemma escapeQuotes_Cons:
  "escapeQuotes (c # s) =
     (if c = CHR 0x5C then [CHR 0x5C, CHR 0x5C]
      else if c = CHR 0x22 then [CHR 0x5C, CHR 0x22]
      else if c = CHR 0x0A then ''%0A''
      else if c = CHR 0x0D then ''%0D''
      else [c]) @ escapeQuotes s"
  by (simp add: escapeQuotes_def)

lemma escapeQuotes_plain:
  "set s \<inter> {CHR 0x5C, CHR 0x22, CHR 0x0A, CHR 0x0D} = {} \<Longrightarrow> escapeQuotes s = s"
  by (induction s) (auto simp: escapeQuotes_Cons)

lemma strip_prefix_append [simp]: "strip_prefix (p @ q) (p @ r) = strip_prefix q r"
  by (induction p) simp_all

lemma read_quoted_escapeQuotes:
  "CHR 0x0A \<notin> set s \<Longrightarrow> CHR 0x0D \<notin> set s \<Longrightarrow>
     read_quoted (escapeQuotes s @ CHR 0x22 # rest) = Some (s, rest)"
  by (induction s) (auto simp: escapeQuotes_Cons)

lemma read_quoted_file: "read_quoted (''file'' @ CHR 0x22 # r) = Some (''file'', r)"
  by simp

lemma read_disposition_form_bytes:
  assumes "CHR 0x0A \<notin> set file" and "CHR 0x0D \<notin> set file"
  shows "read_disposition b
      (form_bytes b
         [\<lparr>field_name = ''file'', file_name = escapeQuotes file, part_type = t, part_data = d\<rparr>]) =
      Some (''file'', file)"
proof -
  let ?head = "''--'' @ b @ [CHR 0x0D, CHR 0x0A] @ ''Content-Disposition: form-data; name='' @ [CHR 0x22]"
  let ?tail = "[CHR 0x0D, CHR 0x0A] @ ''Content-Type: '' @ t @ [CHR 0x0D, CHR 0x0A, CHR 0x0D, CHR 0x0A]
             @ d @ [CHR 0x0D, CHR 0x0A] @ ''--'' @ b @ ''--'' @ [CHR 0x0D, CHR 0x0A]"
  let ?r3 = "escapeQuotes file @ CHR 0x22 # ?tail"
  let ?r2 = "(''; filename='' @ [CHR 0x22]) @ ?r3"
  let ?r1 = "''file'' @ CHR 0x22 # ?r2"
  have body: "form_bytes b
         [\<lparr>field_name = ''file'', file_name = escapeQuotes file, part_type = t, part_data = d\<rparr>] =
      ?head @ ?r1"
    by (simp add: form_bytes_def part_bytes_def quoted_def line_break_def)
  have s1: "strip_prefix ?head (?head @ ?r1) = Some ?r1"
    using strip_prefix_append [of ?head "[]" ?r1] by simp
  have q1: "read_quoted ?r1 = Some (''file'', ?r2)"
    by (rule read_quoted_file)
  have s2: "strip_prefix (''; filename='' @ [CHR 0x22]) ?r2 = Some ?r3"
    using strip_prefix_append [of "''; filename='' @ [CHR 0x22]" "[]" ?r3] by simp
  have q2: "read_quoted ?r3 = Some (file, ?tail)"
    using assms by (rule read_quoted_escapeQuotes)
  show ?thesis
    unfolding read_disposition_def body
    by (simp only: s1 q1 s2 q2 option.case prod.case)
qed

lemma createBody_readable:
  assumes "os_Open w file = Inr f" and "fault f = None"
  shows "createBody w file =
     (emit (EvCloseFile file) (emit (EvOpen file) w),
      Inr (form_bytes (boundary w)
             [\<lparr>field_name = ''file'', file_name = escapeQuotes file,
               part_type = ''application/octet-stream'', part_data = content f\<rparr>],
           ''multipart/form-data; boundary='' @ boundary_param (boundary w)))"
  using assms
  by (simp add: createBody_def CreateFormFile_def CreatePart_def NewWriter_def part_Write_def
      Close_def FormDataContentType_def form_bytes_def part_bytes_def disposition_def
      quoted_def line_break_def crlf_def escapeQuotes_Cons)

lemma createBody_read_fails:
  assumes "os_Open w file = Inr f" and "fault f = Some e"
  shows "createBody w file = (emit (EvCloseFile file) (emit (EvOpen file) w), Inl e)"
  using assms by (simp add: createBody_def CreateFormFile_def CreatePart_def)

lemma boundary_param_hex: "list_all is_hex b \<Longrightarrow> boundary_param b = b"
proof -
  assume h: "list_all is_hex b"
  have "\<not> list_ex (\<lambda>c. c \<in> set special_chars) b"
  proof
    assume "list_ex (\<lambda>c. c \<in> set special_chars) b"
    then obtain c where "c \<in> set b" and "c \<in> set special_chars"
      by (auto simp: list_ex_iff)
    moreover from h \<open>c \<in> set b\<close> have "is_hex c"
      by (simp add: list_all_iff)
    ultimately show False
      by (auto simp: special_chars_def is_hex_def)
  qed
  then show ?thesis by (simp add: boundary_param_def)
qed

lemma demo_open: "os_Open demo_world ''/data/file.txt'' = Inr \<lparr>content = ''This is a test'', fault = None\<rparr>"
  by (simp add: os_Open_def demo_world_def)

lemma demo_open_missing: "os_Open demo_world ''test2.txt'' = Inl (PathError ''open'' ''test2.txt'' ''no such file or directory'')"
  by (simp add: os_Open_def demo_world_def)

lemma Base_demo: "Base ''/data/file.txt'' = ''file.txt''"
  by (simp add: Base_def)

lemma demo_createBody:
  "createBody demo_world ''/data/file.txt'' =
     (emit (EvCloseFile ''/data/file.txt'') (emit (EvOpen ''/data/file.txt'') demo_world),
      Inr (form_bytes ''5f3a9c''
             [\<lparr>field_name = ''file'', file_name = ''/data/file.txt'',
               part_type = ''application/octet-stream'', part_data = ''This is a test''\<rparr>],
           ''multipart/form-data; boundary=5f3a9c''))"
proof -
  have "boundary_param ''5f3a9c'' = ''5f3a9c''"
    by (simp add: boundary_param_def special_chars_def)
  moreover have "boundary demo_world = ''5f3a9c''"
    by (simp add: demo_world_def)
  ultimately show ?thesis
    using createBody_readable [OF demo_open] by (simp add: escapeQuotes_Cons)
qed

lemma parse_key1: \<open>parseJSON ''{"success":true,"key":"2ojE41"}'' =
   (\<lparr>Success = True, Code = 0, Err = [], Expiry = [], Key = ''2ojE41''\<rparr>, None)\<close>
  by (simp add: json_eval decode_eval)

lemma parse_key2: \<open>parseJSON ''{"success":true,"key":"aQbnDJ","expiry":"14 days"}'' =
   (\<lparr>Success = True, Code = 0, Err = [], Expiry = ''14 days'', Key = ''aQbnDJ''\<rparr>, None)\<close>
  by (simp add: json_eval decode_eval)

lemma parse_key3: \<open>parseJSON ''{"success":true,"key":"Zb4Tq9","expiry":"14 days"}'' =
   (\<lparr>Success = True, Code = 0, Err = [], Expiry = ''14 days'', Key = ''Zb4Tq9''\<rparr>, None)\<close>
  by (simp add: json_eval decode_eval)

lemma demo_api: "api demo_world = url_client"
  by (simp add: demo_world_def)

lemma demo_URL: "URL demo_world = ''https://file.io''"
  by (simp add: demo_world_def)

lemma expires_14: "expires 14 = ''2w''"
  by (simp add: expires_pos Itoa_def digit_char_def)

lemma expires_0: "expires 0 = ''14''"
  by (simp add: expires_default)

lemma ReadAll_ok_response: "ReadAll (Body (ok_response rs)) = Inr rs"
  by (simp add: ReadAll_def ok_response_def)

lemma postBody_answered:
  assumes "createBody w file = (w1, Inr (body, ct))"
    and "Post (api w) url ct body = Inr (ok_response rs)"
  shows "postBody w file url =
     (emit EvCloseBody (emit (EvPost url ct body) w1), Some (fst (parseJSON rs)), snd (parseJSON rs))"
  using postBody_parsed [OF assms ReadAll_ok_response] .

lemma postBody_posts:
  "posts (trace (fst (postBody w file url))) =
     posts (trace w) @
       (case snd (createBody w file) of Inl e \<Rightarrow> [] | Inr (body, ct) \<Rightarrow> [(url, ct, body)])"
  by (cases rule: postBody_steps [of w "file" url])
    (auto dest: createBody_world)

lemma postBody_error_spec:
  "snd (snd (postBody w file url)) =
     (case spec_protocol w file url of Inl e \<Rightarrow> Some e | Inr kx \<Rightarrow> None)"
  by (cases rule: postBody_steps [of w "file" url])
    (auto simp: spec_protocol_def split: prod.splits option.splits)

lemma postBody_result_spec:
  "spec_protocol w file url = Inr (k, x) \<Longrightarrow>
     \<exists>r. snd (postBody w file url) = (Some r, None) \<and> Key r = k \<and> Expiry r = x"
  by (cases rule: postBody_steps [of w "file" url])
    (auto simp: spec_protocol_def split: prod.splits option.splits)

lemma demo_postBody:
  assumes "Post url_client url ''multipart/form-data; boundary=5f3a9c''
      (form_bytes ''5f3a9c''
             [\<lparr>field_name = ''file'', file_name = ''/data/file.txt'',
               part_type = ''application/octet-stream'', part_data = ''This is a test''\<rparr>])
     = Inr (ok_response rs)"
  shows "snd (postBody demo_world ''/data/file.txt'' url) = (Some (fst (parseJSON rs)), snd (parseJSON rs))"
  by (simp add: postBody_answered [OF demo_createBody, of url rs, unfolded demo_api, OF assms])

lemma demo_posts:
  "map fst (posts (trace (fst (postBody demo_world ''/data/file.txt'' url)))) = [url]"
  by (simp add: postBody_posts demo_createBody) (simp add: demo_world_def)

lemma Upload_via_postBody:
  "snd (Upload w file) =
     (case snd (postBody w file (URL w)) of
        (rs, Some err) \<Rightarrow> Return ([], Some err)
      | (Some rs, None) \<Rightarrow> Return (Key rs, None)
      | (None, None) \<Rightarrow> Panic)"
  by (auto simp: Upload_def split: prod.splits option.splits)

lemma Upload_world: "fst (Upload w file) = fst (postBody w file (URL w))"
  by (auto simp: Upload_def split: prod.splits option.splits)

lemma UploadWithExpire_via_postBody:
  "snd (UploadWithExpire w file days) =
     (case snd (postBody w file (URL w @ ''/?expires='' @ expires days)) of
        (rs, Some err) \<Rightarrow> Return ([], [], Some err)
      | (Some rs, None) \<Rightarrow> Return (Key rs, Expiry rs, None)
      | (None, None) \<Rightarrow> Panic)"
  by (auto simp: UploadWithExpire_def split: prod.splits option.splits)

lemma UploadWithExpire_world:
  "fst (UploadWithExpire w file days) = fst (postBody w file (URL w @ ''/?expires='' @ expires days))"
  by (auto simp: UploadWithExpire_def split: prod.splits option.splits)

lemma demo_Upload: "snd (Upload demo_world ''/data/file.txt'') = Return (''2ojE41'', None)"
  by (simp add: Upload_via_postBody demo_URL demo_postBody url_client_def parse_key1)

lemma demo_Upload_posts:
    "map fst (posts (trace (fst (Upload demo_world ''/data/file.txt'')))) = [''https://file.io'']"
  by (simp add: Upload_world demo_URL demo_posts)

lemma demo_UploadWithExpire_14:
  "snd (UploadWithExpire demo_world ''/data/file.txt'' 14) = Return (''aQbnDJ'', ''14 days'', None)"
  by (simp add: UploadWithExpire_via_postBody demo_URL expires_14 demo_postBody url_client_def parse_key2)

lemma demo_UploadWithExpire_0:
  "snd (UploadWithExpire demo_world ''/data/file.txt'' 0) = Return (''Zb4Tq9'', ''14 days'', None)"
  by (simp add: UploadWithExpire_via_postBody demo_URL expires_0 demo_postBody url_client_def parse_key3)


lemma Upload_spec:
  "snd (Upload w file) =
     (case spec_protocol w file (URL w) of
        Inl e \<Rightarrow> Return ([], Some e)
      | Inr (k, x) \<Rightarrow> Return (k, None))"
proof (cases "spec_protocol w file (URL w)")
  case (Inl e)
  with postBody_error_spec [of w "file" "URL w"] show ?thesis
    by (cases "postBody w file (URL w)") (simp add: Upload_def split: option.splits)
next
  case (Inr kx)
  obtain k x where kx: "kx = (k, x)" by (cases kx)
  from postBody_result_spec [OF Inr [unfolded kx]] Inr kx show ?thesis
    by (cases "postBody w file (URL w)") (auto simp: Upload_def)
qed

lemma UploadWithExpire_spec:
  "snd (UploadWithExpire w file days) =
     (case spec_protocol w file (URL w @ ''/?expires='' @ expires days) of
        Inl e \<Rightarrow> Return ([], [], Some e)
      | Inr (k, x) \<Rightarrow> Return (k, x, None))"
proof (cases "spec_protocol w file (URL w @ ''/?expires='' @ expires days)")
  case (Inl e)
  with postBody_error_spec [of w "file" "URL w @ ''/?expires='' @ expires days"] show ?thesis
    by (cases "postBody w file (URL w @ ''/?expires='' @ expires days)")
      (simp add: UploadWithExpire_def split: option.splits)
next
  case (Inr kx)
  obtain k x where kx: "kx = (k, x)" by (cases kx)
  from postBody_result_spec [OF Inr [unfolded kx]] Inr kx show ?thesis
    by (cases "postBody w file (URL w @ ''/?expires='' @ expires days)")
      (auto simp: UploadWithExpire_def)
qed

lemma spec_protocol_same_answer:
  "Post (api w) url = Post (api w) url' \<Longrightarrow> spec_protocol w file url = spec_protocol w file url'"
  by (auto simp: spec_protocol_def split: sum.splits prod.splits)


lemma snd_createBody_readable:
  assumes "os_Open w file = Inr f" and "fault f = None"
  shows "snd (createBody w file) =
     Inr (form_bytes (boundary w)
            [\<lparr>field_name = ''file'', file_name = escapeQuotes file,
              part_type = ''application/octet-stream'', part_data = content f\<rparr>],
          ''multipart/form-data; boundary='' @ boundary_param (boundary w))"
  by (simp add: createBody_readable [OF assms])

lemma snd_demo_createBody:
  "snd (createBody demo_world ''/data/file.txt'') =
     Inr (form_bytes ''5f3a9c''
            [\<lparr>field_name = ''file'', file_name = ''/data/file.txt'',
              part_type = ''application/octet-stream'', part_data = ''This is a test''\<rparr>],
          ''multipart/form-data; boundary=5f3a9c'')"
  by (simp add: demo_createBody)

lemma createBody_api [simp]: "snd (createBody (w\<lparr>api := c\<rparr>) file) = snd (createBody w file)"
  by (simp add: createBody_def os_Open_def emit_def Let_def
      split: sum.splits option.splits node.splits)

lemma parse_500: \<open>parseJSON ''{"success":false,"error":500,"message":"Internal error"}'' =
   (\<lparr>Success = False, Code = 500, Err = ''Internal error'', Expiry = [], Key = []\<rparr>,
    Some (ErrorString ''Internal error''))\<close>
  by (simp add: json_eval decode_eval)

lemma parse_404: \<open>parseJSON ''{"success":false,"error":404,"message":"Not Found"}'' =
   (\<lparr>Success = False, Code = 404, Err = ''Not Found'', Expiry = [], Key = []\<rparr>,
    Some (ErrorString ''Not Found''))\<close>
  by (simp add: json_eval decode_eval)

lemma parse_404_as_500: \<open>parseJSON ''{"success":false,"error":500,"message":"Not Found"}'' =
   (\<lparr>Success = False, Code = 500, Err = ''Not Found'', Expiry = [], Key = []\<rparr>,
    Some (ErrorString ''Not Found''))\<close>
  by (simp add: json_eval decode_eval)

lemma json_404_text: \<open>json_parse ''{"success":false,"error":"404","message":"Not Found"}'' =
   Some (JObject [(''success'', JBool False), (''error'', JString ''404''),
                  (''message'', JString ''Not Found'')])\<close>
  by (simp add: json_eval)

lemma parse_404_text: \<open>parseJSON ''{"success":false,"error":"404","message":"Not Found"}'' =
   (\<lparr>Success = False, Code = 0, Err = ''Not Found'', Expiry = [], Key = []\<rparr>,
    Some (UnmarshalTypeError ''string'' ''int''))\<close>
  by (simp add: json_404_text decode_eval)

lemma parse_no_key: \<open>parseJSON ''{"success":true}'' =
   (\<lparr>Success = True, Code = 0, Err = [], Expiry = [], Key = []\<rparr>, None)\<close>
  by (simp add: json_eval decode_eval)



lemma expires_666: "expires 666 = ''666''"
  by (simp add: expires_pos Itoa_def digit_char_def)

lemma expires_999: "expires 999 = ''999''"
  by (simp add: expires_pos Itoa_def digit_char_def)

lemma expires_7: "expires 7 = ''1w''"
  by (simp add: expires_pos Itoa_def digit_char_def)

lemma spec_protocol_offline:
  "spec_protocol offline_world ''/data/file.txt'' url = Inl (ErrorString ''No transport'')"
  by (simp add: spec_protocol_def offline_world_def snd_demo_createBody no_transport_def)

lemma spec_protocol_666:
  "spec_protocol demo_world ''/data/file.txt'' ''https://file.io/?expires=666'' =
     Inl (ErrorString ''Internal error'')"
  by (simp add: spec_protocol_def snd_demo_createBody demo_api url_client_def
      ReadAll_ok_response parse_500)

lemma spec_protocol_999:
  "spec_protocol demo_world ''/data/file.txt'' ''https://file.io/?expires=999'' = Inl SyntaxError"
  by (simp add: spec_protocol_def snd_demo_createBody demo_api url_client_def
      ReadAll_ok_response parseJSON_def Unmarshal_def json_parse_empty)

lemma spec_protocol_missing:
  "spec_protocol demo_world ''test2.txt'' url =
     Inl (PathError ''open'' ''test2.txt'' ''no such file or directory'')"
  by (simp add: spec_protocol_def createBody_open_fails [OF demo_open_missing])

lemma const_world_Post: "Post (api (const_world b)) url = Post (api (const_world b)) url'"
  by (simp add: const_world_def const_client_def)

lemma Download_not_found:
  "Get (api demo_world) (URL demo_world @ ''/'' @ ''not_exists'') = Inr not_found"
  by (simp add: demo_api demo_URL url_client_def)


lemma const_world_createBody:
  "createBody (const_world b) ''/data/file.txt'' =
     (emit (EvCloseFile ''/data/file.txt'') (emit (EvOpen ''/data/file.txt'') (const_world b)),
      Inr (form_bytes ''5f3a9c''
             [\<lparr>field_name = ''file'', file_name = ''/data/file.txt'',
               part_type = ''application/octet-stream'', part_data = ''This is a test''\<rparr>],
           ''multipart/form-data; boundary=5f3a9c''))"
proof -
  have o: "os_Open (const_world b) ''/data/file.txt'' =
      Inr \<lparr>content = ''This is a test'', fault = None\<rparr>"
    by (simp add: os_Open_def const_world_def demo_world_def)
  have "boundary_param ''5f3a9c'' = ''5f3a9c''"
    by (simp add: boundary_param_def special_chars_def)
  moreover have "boundary (const_world b) = ''5f3a9c''"
    by (simp add: const_world_def demo_world_def)
  ultimately show ?thesis
    using createBody_readable [OF o] by (simp add: escapeQuotes_Cons)
qed

lemma const_world_postBody:
  "snd (postBody (const_world b) ''/data/file.txt'' url) = (Some (fst (parseJSON b)), snd (parseJSON b))"
proof -
  have "Post (api (const_world b)) url ct body = Inr (ok_response b)" for ct body
    by (simp add: const_world_def const_client_def)
  from postBody_answered [OF const_world_createBody this] show ?thesis
    by simp
qed

section \<open>Claims about the expiration encoder\<close>

text \<open>
  Claim C1. For every integer \<open>days\<close>, \<open>expires days\<close> is what the encoding
  algorithm of the specification gives: \<open>''14''\<close> when \<open>days < 1\<close>; otherwise the
  week, month and year rules are tried in this order, the first whose divisor (7, 31,
  365) divides \<open>days\<close> giving the quotient followed by \<open>w\<close>, \<open>m\<close> or \<open>y\<close>; and
  the plain decimal day count when none applies. In particular 217 = 7 * 31 is
  encoded as \<open>''31w''\<close>, the week rule being tried first.
\<close>

theorem expires_refines_spec_encode:
  "expires days = spec_encode days \<and> expires 217 = ''31w''"
proof
  show "expires days = spec_encode days"
  proof (cases "days < 1")
    case True
    then show ?thesis
      by (simp add: expires_default spec_encode_def)
  next
    case False
    then have "1 \<le> days" by simp
    then show ?thesis
      by (simp add: expires_pos spec_encode_def)
  qed
  show "expires 217 = ''31w''"
    by (simp add: expires_pos Itoa_def digit_char_def)
qed

theorem expires_refines_spec_encode_witness:
  "expires 730 = ''2y'' \<and> expires 31 = ''1m'' \<and> expires 12 = ''12'' \<and> expires (- 1) = ''14''"
  using expires_refines_spec_encode [of 730] expires_refines_spec_encode [of 31]
    expires_refines_spec_encode [of 12] expires_refines_spec_encode [of "- 1"]
  by (simp add: spec_encode_def Itoa_def digit_char_def)

text \<open>
  Claim C9. \<open>expires days\<close> is the string \<open>''14''\<close> exactly when \<open>days < 1\<close>: no day
  count of 1 or more is encoded as \<open>''14''\<close>. The day count 14 itself is a multiple
  of 7 and is encoded as \<open>''2w''\<close>, so asking for 14 days sends another wire value
  than the default sent for a non-positive day count.
\<close>

theorem expires_eq_14_iff:
  "(expires days = ''14'') = (days < 1) \<and> expires 14 = ''2w'' \<and> expires 14 \<noteq> expires 0"
proof -
  have "(expires days = ''14'') = (days < 1)"
    using expires_pos_neq_14 [of days] expires_default [of days] by fastforce
  moreover have "expires 14 = ''2w''"
    by (simp add: expires_pos Itoa_def digit_char_def)
  moreover have "expires 0 = ''14''"
    by (simp add: expires_default)
  ultimately show ?thesis by simp
qed

theorem expires_eq_14_iff_witness:
  "expires 5 \<noteq> ''14'' \<and> expires 0 = ''14'' \<and> expires (- 3) = ''14''"
  using expires_eq_14_iff [of 5] expires_eq_14_iff [of 0] expires_eq_14_iff [of "- 3"]
  by simp

section \<open>Claims about the upload\<close>

text \<open>
  Claim C2, as stated: \<open>Upload\<close> gives the key an upload with the default expiration
  of 14 days gives. This fails: \<open>Upload\<close> posts to the base URL with no \<open>expires\<close>
  parameter, and a service that answers by URL (here with a key of its own for each
  URL) returns another key for \<open>UploadWithExpire\<close> with 14 days (sent as \<open>2w\<close>) and
  with a non-positive day count (sent as \<open>14\<close>).
\<close>

theorem upload_default_expiration_counterexample:
  "snd (Upload demo_world ''/data/file.txt'') = Return (''2ojE41'', None) \<and>
   snd (UploadWithExpire demo_world ''/data/file.txt'' 14) = Return (''aQbnDJ'', ''14 days'', None) \<and>
   snd (UploadWithExpire demo_world ''/data/file.txt'' 0) = Return (''Zb4Tq9'', ''14 days'', None) \<and>
   map fst (posts (trace (fst (Upload demo_world ''/data/file.txt'')))) = [''https://file.io'']"
  by (simp add: demo_Upload demo_UploadWithExpire_14 demo_UploadWithExpire_0 demo_Upload_posts)

text \<open>
  Claim C2, amended. \<open>Upload\<close> and \<open>UploadWithExpire\<close> run the protocol of the
  specification (build the body, one POST, read the whole response, decode), the
  first at the base URL itself, with no \<open>expires\<close> parameter, the second at the base
  URL followed by \<open>/?expires=\<close> and \<open>expires days\<close>. The error of the first step
  that fails is returned as it is, with empty strings. Each call issues one POST when
  the body was built and none otherwise. \<open>Upload\<close> returns the key and the error
  \<open>UploadWithExpire\<close> returns whenever the transport answers the two URLs alike.
\<close>

theorem upload_protocol:
  "snd (Upload w file) =
     (case spec_protocol w file (URL w) of
        Inl e \<Rightarrow> Return ([], Some e)
      | Inr (k, x) \<Rightarrow> Return (k, None)) \<and>
   snd (UploadWithExpire w file days) =
     (case spec_protocol w file (URL w @ ''/?expires='' @ expires days) of
        Inl e \<Rightarrow> Return ([], [], Some e)
      | Inr (k, x) \<Rightarrow> Return (k, x, None)) \<and>
   posts (trace (fst (Upload w file))) =
     posts (trace w) @
       (case snd (createBody w file) of Inl e \<Rightarrow> [] | Inr (body, ct) \<Rightarrow> [(URL w, ct, body)]) \<and>
   posts (trace (fst (UploadWithExpire w file days))) =
     posts (trace w) @
       (case snd (createBody w file) of
          Inl e \<Rightarrow> []
        | Inr (body, ct) \<Rightarrow> [(URL w @ ''/?expires='' @ expires days, ct, body)]) \<and>
   (Post (api w) (URL w @ ''/?expires='' @ expires days) = Post (api w) (URL w) \<longrightarrow>
      snd (Upload w file) =
        (case snd (UploadWithExpire w file days) of
           Return (k, x, err) \<Rightarrow> Return (k, err)
         | Panic \<Rightarrow> Panic))"
proof (intro conjI impI)
  show "snd (Upload w file) =
     (case spec_protocol w file (URL w) of
        Inl e \<Rightarrow> Return ([], Some e)
      | Inr (k, x) \<Rightarrow> Return (k, None))"
    by (rule Upload_spec)
  show "snd (UploadWithExpire w file days) =
     (case spec_protocol w file (URL w @ ''/?expires='' @ expires days) of
        Inl e \<Rightarrow> Return ([], [], Some e)
      | Inr (k, x) \<Rightarrow> Return (k, x, None))"
    by (rule UploadWithExpire_spec)
  show "posts (trace (fst (Upload w file))) =
     posts (trace w) @
       (case snd (createBody w file) of Inl e \<Rightarrow> [] | Inr (body, ct) \<Rightarrow> [(URL w, ct, body)])"
    by (simp add: Upload_world postBody_posts)
  show "posts (trace (fst (UploadWithExpire w file days))) =
     posts (trace w) @
       (case snd (createBody w file) of
          Inl e \<Rightarrow> []
        | Inr (body, ct) \<Rightarrow> [(URL w @ ''/?expires='' @ expires days, ct, body)])"
    by (simp only: UploadWithExpire_world postBody_posts)
next
  assume "Post (api w) (URL w @ ''/?expires='' @ expires days) = Post (api w) (URL w)"
  then have "spec_protocol w file (URL w @ ''/?expires='' @ expires days) =
      spec_protocol w file (URL w)"
    by (rule spec_protocol_same_answer)
  then show "snd (Upload w file) =
        (case snd (UploadWithExpire w file days) of
           Return (k, x, err) \<Rightarrow> Return (k, err)
         | Panic \<Rightarrow> Panic)"
    by (simp add: Upload_spec UploadWithExpire_spec split: sum.splits prod.splits)
qed

theorem upload_protocol_witness:
  \<open>snd (Upload offline_world ''/data/file.txt'') = Return ([], Some (ErrorString ''No transport'')) \<and>
   snd (UploadWithExpire demo_world ''/data/file.txt'' 666) =
     Return ([], [], Some (ErrorString ''Internal error'')) \<and>
   snd (UploadWithExpire demo_world ''/data/file.txt'' 999) = Return ([], [], Some SyntaxError) \<and>
   map fst (posts (trace (fst (UploadWithExpire demo_world ''/data/file.txt'' 7)))) =
     [''https://file.io/?expires=1w''] \<and>
   posts (trace (fst (Upload demo_world ''test2.txt''))) = [] \<and>
   Post (api (const_world ''{"success":true,"key":"2ojE41"}''))
       (URL (const_world ''{"success":true,"key":"2ojE41"}'') @ ''/?expires='' @ expires 7) =
     Post (api (const_world ''{"success":true,"key":"2ojE41"}''))
       (URL (const_world ''{"success":true,"key":"2ojE41"}'')) \<and>
   snd (Upload (const_world ''{"success":true,"key":"2ojE41"}'') ''/data/file.txt'') =
     (case snd (UploadWithExpire (const_world ''{"success":true,"key":"2ojE41"}'') ''/data/file.txt'' 7) of
        Return (k, x, err) \<Rightarrow> Return (k, err)
      | Panic \<Rightarrow> Panic)\<close>
proof -
  let ?cw = \<open>const_world ''{"success":true,"key":"2ojE41"}''\<close>
  have f1: "snd (Upload offline_world ''/data/file.txt'') =
      Return ([], Some (ErrorString ''No transport''))"
    using upload_protocol [of offline_world "''/data/file.txt''" 0]
    by (simp add: spec_protocol_offline)
  have f2: "snd (UploadWithExpire demo_world ''/data/file.txt'' 666) =
     Return ([], [], Some (ErrorString ''Internal error''))"
    using upload_protocol [of demo_world "''/data/file.txt''" 666]
    by (simp add: demo_URL expires_666 spec_protocol_666)
  have f3: "snd (UploadWithExpire demo_world ''/data/file.txt'' 999) =
     Return ([], [], Some SyntaxError)"
    using upload_protocol [of demo_world "''/data/file.txt''" 999]
    by (simp add: demo_URL expires_999 spec_protocol_999)
  have f4: "map fst (posts (trace (fst (UploadWithExpire demo_world ''/data/file.txt'' 7)))) =
     [''https://file.io/?expires=1w'']"
    using upload_protocol [of demo_world "''/data/file.txt''" 7]
    by (simp add: demo_URL expires_7 snd_demo_createBody) (simp add: demo_world_def)
  have f5: "posts (trace (fst (Upload demo_world ''test2.txt''))) = []"
    using upload_protocol [of demo_world "''test2.txt''" 0]
    by (simp add: createBody_open_fails [OF demo_open_missing]) (simp add: demo_world_def)
  have f6: "Post (api ?cw) (URL ?cw @ ''/?expires='' @ expires 7) = Post (api ?cw) (URL ?cw)"
    by (rule const_world_Post)
  have f7: "snd (Upload ?cw ''/data/file.txt'') =
     (case snd (UploadWithExpire ?cw ''/data/file.txt'' 7) of
        Return (k, x, err) \<Rightarrow> Return (k, err)
      | Panic \<Rightarrow> Panic)"
    using upload_protocol [of ?cw "''/data/file.txt''" 7] f6 by blast
  from f1 f2 f3 f4 f5 f6 f7 show ?thesis
    by (intro conjI)
qed

text \<open>
  Claim C3, as stated: the file name of the part is the base name of the path. This
  fails: \<open>createBody\<close> hands the path as it is to \<open>CreateFormFile\<close>, so for
  \<open>/data/file.txt\<close> the part is named \<open>/data/file.txt\<close> and not \<open>file.txt\<close>.
\<close>

theorem createBody_base_name_counterexample:
  "os_Open demo_world ''/data/file.txt'' = Inr \<lparr>content = ''This is a test'', fault = None\<rparr> \<and>
   Base ''/data/file.txt'' = ''file.txt'' \<and>
   snd (createBody demo_world ''/data/file.txt'') \<noteq>
     Inr (form_bytes ''5f3a9c''
            [\<lparr>field_name = ''file'', file_name = Base ''/data/file.txt'',
              part_type = ''application/octet-stream'', part_data = ''This is a test''\<rparr>],
          ''multipart/form-data; boundary=5f3a9c'')"
  by (simp add: demo_open Base_demo demo_createBody form_bytes_def part_bytes_def quoted_def
      line_break_def)

text \<open>
  Claim C3, amended. For every file that opens and is read to its end without an
  error, \<open>createBody\<close> returns the multipart/form-data body of exactly one part whose
  field name is \<open>file\<close>, whose content is all the bytes of the file, and whose file
  name is made from the whole path as it was given, not from its base name: between
  the double quotes stands the path with a backslash put before every backslash and
  double quote, and with every line feed and carriage return replaced by \<open>%0A\<close> and
  \<open>%0D\<close>. So a path with none of these four bytes stands there unchanged, and for a
  path without line feed and carriage return a reader of the body gets back the field
  name \<open>file\<close> and exactly the path. The content type returned is
  \<open>multipart/form-data; boundary=\<close> followed by the boundary of the body (in quotes
  when it holds a special character, which a boundary of hexadecimal digits never
  does).
\<close>

theorem createBody_one_part:
  "(os_Open w file = Inr f \<and> fault f = None \<longrightarrow>
      snd (createBody w file) =
        Inr (form_bytes (boundary w)
               [\<lparr>field_name = ''file'', file_name = escapeQuotes file,
                 part_type = ''application/octet-stream'', part_data = content f\<rparr>],
             ''multipart/form-data; boundary='' @ boundary_param (boundary w))) \<and>
   escapeQuotes file =
     concat (map (\<lambda>c. if c = CHR 0x5C then [CHR 0x5C, CHR 0x5C]
                       else if c = CHR 0x22 then [CHR 0x5C, CHR 0x22]
                       else if c = CHR 0x0A then ''%0A''
                       else if c = CHR 0x0D then ''%0D''
                       else [c]) file) \<and>
   (set file \<inter> {CHR 0x5C, CHR 0x22, CHR 0x0A, CHR 0x0D} = {} \<longrightarrow> escapeQuotes file = file) \<and>
   (os_Open w file = Inr f \<and> fault f = None \<and> CHR 0x0A \<notin> set file \<and> CHR 0x0D \<notin> set file \<longrightarrow>
      (\<exists>body ct. snd (createBody w file) = Inr (body, ct) \<and>
         read_disposition (boundary w) body = Some (''file'', file))) \<and>
   (list_all is_hex (boundary w) \<longrightarrow> boundary_param (boundary w) = boundary w)"
proof (intro conjI impI)
  assume "os_Open w file = Inr f \<and> fault f = None"
  then have "createBody w file =
     (emit (EvCloseFile file) (emit (EvOpen file) w),
      Inr (buf (Close (part_Write
             (NewWriter (boundary w)
                \<lparr>buf := ''--'' @ boundary w @ crlf
                   @ ''Content-Disposition: '' @ disposition ''file'' file @ crlf
                   @ ''Content-Type: application/octet-stream'' @ crlf @ crlf,
                 lastpart := True\<rparr>)
             (content f))),
           ''multipart/form-data; boundary='' @ boundary_param (boundary w)))"
    by (simp add: createBody_def CreateFormFile_def CreatePart_def NewWriter_def part_Write_def
        FormDataContentType_def)
  then show "snd (createBody w file) =
        Inr (form_bytes (boundary w)
               [\<lparr>field_name = ''file'', file_name = escapeQuotes file,
                 part_type = ''application/octet-stream'', part_data = content f\<rparr>],
             ''multipart/form-data; boundary='' @ boundary_param (boundary w))"
    by (simp add: NewWriter_def part_Write_def Close_def form_bytes_def part_bytes_def
        disposition_def quoted_def line_break_def crlf_def escapeQuotes_Cons)
next
  show "escapeQuotes file =
     concat (map (\<lambda>c. if c = CHR 0x5C then [CHR 0x5C, CHR 0x5C]
                       else if c = CHR 0x22 then [CHR 0x5C, CHR 0x22]
                       else if c = CHR 0x0A then ''%0A''
                       else if c = CHR 0x0D then ''%0D''
                       else [c]) file)"
    by (simp add: escapeQuotes_def)
next
  assume "set file \<inter> {CHR 0x5C, CHR 0x22, CHR 0x0A, CHR 0x0D} = {}"
  then show "escapeQuotes file = file"
    by (rule escapeQuotes_plain)
next
  assume a: "os_Open w file = Inr f \<and> fault f = None \<and> CHR 0x0A \<notin> set file \<and> CHR 0x0D \<notin> set file"
  then have body: "snd (createBody w file) =
     Inr (form_bytes (boundary w)
            [\<lparr>field_name = ''file'', file_name = escapeQuotes file,
              part_type = ''application/octet-stream'', part_data = content f\<rparr>],
          ''multipart/form-data; boundary='' @ boundary_param (boundary w))"
    by (simp add: snd_createBody_readable)
  from a have "read_disposition (boundary w)
      (form_bytes (boundary w)
            [\<lparr>field_name = ''file'', file_name = escapeQuotes file,
              part_type = ''application/octet-stream'', part_data = content f\<rparr>]) =
      Some (''file'', file)"
    by (simp add: read_disposition_form_bytes)
  with body show "\<exists>body ct. snd (createBody w file) = Inr (body, ct) \<and>
         read_disposition (boundary w) body = Some (''file'', file)"
    by blast
next
  assume "list_all is_hex (boundary w)"
  then show "boundary_param (boundary w) = boundary w"
    by (rule boundary_param_hex)
qed

theorem createBody_one_part_witness:
  \<open>os_Open demo_world ''/data/file.txt'' = Inr \<lparr>content = ''This is a test'', fault = None\<rparr> \<and>
   list_all is_hex (boundary demo_world) \<and>
   snd (createBody demo_world ''/data/file.txt'') =
     Inr (''--5f3a9c'' @ [CHR 0x0D, CHR 0x0A]
            @ ''Content-Disposition: form-data; name="file"; filename="/data/file.txt"''
            @ [CHR 0x0D, CHR 0x0A]
            @ ''Content-Type: application/octet-stream'' @ [CHR 0x0D, CHR 0x0A, CHR 0x0D, CHR 0x0A]
            @ ''This is a test'' @ [CHR 0x0D, CHR 0x0A]
            @ ''--5f3a9c--'' @ [CHR 0x0D, CHR 0x0A],
          ''multipart/form-data; boundary=5f3a9c'') \<and>
   (\<exists>body ct. snd (createBody demo_world ''/data/file.txt'') = Inr (body, ct) \<and>
      read_disposition ''5f3a9c'' body = Some (''file'', ''/data/file.txt'')) \<and>
   snd (createBody newline_world (''new'' @ [CHR 0x0A] @ ''line.txt'')) =
     Inr (''--5f3a9c'' @ [CHR 0x0D, CHR 0x0A]
            @ ''Content-Disposition: form-data; name="file"; filename="new%0Aline.txt"''
            @ [CHR 0x0D, CHR 0x0A]
            @ ''Content-Type: application/octet-stream'' @ [CHR 0x0D, CHR 0x0A, CHR 0x0D, CHR 0x0A]
            @ ''x'' @ [CHR 0x0D, CHR 0x0A]
            @ ''--5f3a9c--'' @ [CHR 0x0D, CHR 0x0A],
          ''multipart/form-data; boundary=5f3a9c'')\<close>
proof -
  have b: "boundary demo_world = ''5f3a9c''" and bn: "boundary newline_world = ''5f3a9c''"
    by (simp_all add: newline_world_def demo_world_def)
  have h: "list_all is_hex (boundary demo_world)"
    by (simp add: b is_hex_def)
  have bp: "boundary_param ''5f3a9c'' = ''5f3a9c''"
    by (simp add: boundary_param_def special_chars_def)
  have on: "os_Open newline_world (''new'' @ [CHR 0x0A] @ ''line.txt'') =
      Inr \<lparr>content = ''x'', fault = None\<rparr>"
    by (simp add: os_Open_def newline_world_def)
  note d = createBody_one_part [of demo_world "''/data/file.txt''"
      "\<lparr>content = ''This is a test'', fault = None\<rparr>"]
  note n = createBody_one_part [of newline_world "''new'' @ [CHR 0x0A] @ ''line.txt''"
      "\<lparr>content = ''x'', fault = None\<rparr>"]
  from d demo_open have f1: \<open>snd (createBody demo_world ''/data/file.txt'') =
     Inr (''--5f3a9c'' @ [CHR 0x0D, CHR 0x0A]
            @ ''Content-Disposition: form-data; name="file"; filename="/data/file.txt"''
            @ [CHR 0x0D, CHR 0x0A]
            @ ''Content-Type: application/octet-stream'' @ [CHR 0x0D, CHR 0x0A, CHR 0x0D, CHR 0x0A]
            @ ''This is a test'' @ [CHR 0x0D, CHR 0x0A]
            @ ''--5f3a9c--'' @ [CHR 0x0D, CHR 0x0A],
          ''multipart/form-data; boundary=5f3a9c'')\<close>
    by (simp add: b bp form_bytes_def part_bytes_def quoted_def line_break_def escapeQuotes_Cons)
  have "\<exists>body ct. snd (createBody demo_world ''/data/file.txt'') = Inr (body, ct) \<and>
      read_disposition (boundary demo_world) body = Some (''file'', ''/data/file.txt'')"
    by (rule d [THEN conjunct2, THEN conjunct2, THEN conjunct2, THEN conjunct1, THEN mp])
      (simp add: demo_open)
  then have f2: "\<exists>body ct. snd (createBody demo_world ''/data/file.txt'') = Inr (body, ct) \<and>
      read_disposition ''5f3a9c'' body = Some (''file'', ''/data/file.txt'')"
    by (simp only: b)
  from n on have f3: \<open>snd (createBody newline_world (''new'' @ [CHR 0x0A] @ ''line.txt'')) =
     Inr (''--5f3a9c'' @ [CHR 0x0D, CHR 0x0A]
            @ ''Content-Disposition: form-data; name="file"; filename="new%0Aline.txt"''
            @ [CHR 0x0D, CHR 0x0A]
            @ ''Content-Type: application/octet-stream'' @ [CHR 0x0D, CHR 0x0A, CHR 0x0D, CHR 0x0A]
            @ ''x'' @ [CHR 0x0D, CHR 0x0A]
            @ ''--5f3a9c--'' @ [CHR 0x0D, CHR 0x0A],
          ''multipart/form-data; boundary=5f3a9c'')\<close>
    by (simp add: bn bp form_bytes_def part_bytes_def quoted_def line_break_def escapeQuotes_Cons)
  from demo_open h f1 f2 f3 show ?thesis
    by (intro conjI)
qed

text \<open>
  Claim C6. When the file cannot be opened, \<open>Upload\<close> and \<open>UploadWithExpire\<close> fail
  with the error of \<open>os.Open\<close> and empty strings, and no POST is issued: the only call
  made is the attempt to open the file. More generally no POST is issued whenever
  building the multipart body fails.
\<close>

theorem upload_open_failure_before_post:
  "(os_Open w file = Inl e \<longrightarrow>
      Upload w file = (emit (EvOpen file) w, Return ([], Some e)) \<and>
      UploadWithExpire w file days = (emit (EvOpen file) w, Return ([], [], Some e)) \<and>
      posts (trace (fst (Upload w file))) = posts (trace w) \<and>
      posts (trace (fst (UploadWithExpire w file days))) = posts (trace w)) \<and>
   (snd (createBody w file) = Inl e \<longrightarrow>
      snd (Upload w file) = Return ([], Some e) \<and>
      snd (UploadWithExpire w file days) = Return ([], [], Some e) \<and>
      posts (trace (fst (Upload w file))) = posts (trace w) \<and>
      posts (trace (fst (UploadWithExpire w file days))) = posts (trace w))"
proof (intro conjI impI)
  assume op: "os_Open w file = Inl e"
  have pb: "postBody w file url = (emit (EvOpen file) w, None, Some e)" for url
    using op by (simp add: createBody_open_fails postBody_createBody_fails)
  show u: "Upload w file = (emit (EvOpen file) w, Return ([], Some e))"
    by (simp add: pb Upload_error)
  show ue: "UploadWithExpire w file days = (emit (EvOpen file) w, Return ([], [], Some e))"
    by (simp add: pb UploadWithExpire_error)
  show "posts (trace (fst (Upload w file))) = posts (trace w)"
    by (simp add: u)
  show "posts (trace (fst (UploadWithExpire w file days))) = posts (trace w)"
    by (simp add: ue)
next
  assume cb: "snd (createBody w file) = Inl e"
  then have sp: "spec_protocol w file url = Inl e" for url
    by (simp add: spec_protocol_def)
  show "snd (Upload w file) = Return ([], Some e)"
    by (simp add: Upload_spec sp)
  show "snd (UploadWithExpire w file days) = Return ([], [], Some e)"
    by (simp add: UploadWithExpire_spec sp)
  show "posts (trace (fst (Upload w file))) = posts (trace w)"
    by (simp add: Upload_world postBody_posts cb)
  show "posts (trace (fst (UploadWithExpire w file days))) = posts (trace w)"
    by (simp add: UploadWithExpire_world postBody_posts cb)
qed

theorem upload_open_failure_before_post_witness:
  "os_Open demo_world ''test2.txt'' =
     Inl (PathError ''open'' ''test2.txt'' ''no such file or directory'') \<and>
   snd (Upload demo_world ''test2.txt'') =
     Return ([], Some (PathError ''open'' ''test2.txt'' ''no such file or directory'')) \<and>
   snd (UploadWithExpire demo_world ''test2.txt'' 7) =
     Return ([], [], Some (PathError ''open'' ''test2.txt'' ''no such file or directory'')) \<and>
   trace (fst (Upload demo_world ''test2.txt'')) = [EvOpen ''test2.txt''] \<and>
   posts (trace (fst (UploadWithExpire demo_world ''test2.txt'' 7))) = []"
  using upload_open_failure_before_post [of demo_world "''test2.txt''"
      "PathError ''open'' ''test2.txt'' ''no such file or directory''" 7]
    demo_open_missing
  by (simp add: demo_world_def emit_def)

text \<open>
  Claim C10. When \<open>Upload\<close> returns an error its key is the empty string, and when
  \<open>UploadWithExpire\<close> returns an error its key and its expiry are empty strings.
  Neither call panics.
\<close>

theorem upload_error_no_partial_result:
  "(snd (Upload w file) = Return (k, Some e) \<longrightarrow> k = []) \<and>
   (snd (UploadWithExpire w file days) = Return (k', x, Some e') \<longrightarrow> k' = [] \<and> x = []) \<and>
   snd (Upload w file) \<noteq> Panic \<and> snd (UploadWithExpire w file days) \<noteq> Panic"
proof (intro conjI impI)
  assume "snd (Upload w file) = Return (k, Some e)"
  then show "k = []"
    by (simp add: Upload_spec split: sum.splits prod.splits)
next
  assume a: "snd (UploadWithExpire w file days) = Return (k', x, Some e')"
  then show "k' = []"
    by (simp add: UploadWithExpire_spec split: sum.splits prod.splits)
  from a show "x = []"
    by (simp add: UploadWithExpire_spec split: sum.splits prod.splits)
next
  show "snd (Upload w file) \<noteq> Panic"
    by (rule Upload_never_panics)
  show "snd (UploadWithExpire w file days) \<noteq> Panic"
    by (rule UploadWithExpire_never_panics)
qed

theorem upload_error_no_partial_result_witness:
  "snd (Upload offline_world ''/data/file.txt'') = Return ([], Some (ErrorString ''No transport'')) \<and>
   snd (UploadWithExpire demo_world ''/data/file.txt'' 666) =
     Return ([], [], Some (ErrorString ''Internal error''))"
proof -
  have u: "snd (Upload offline_world ''/data/file.txt'') = Return ([], Some (ErrorString ''No transport''))"
    by (simp add: Upload_spec spec_protocol_offline)
  have ue: "snd (UploadWithExpire demo_world ''/data/file.txt'' 666) =
     Return ([], [], Some (ErrorString ''Internal error''))"
    by (simp add: UploadWithExpire_spec demo_URL expires_666 spec_protocol_666)
  from upload_error_no_partial_result [of offline_world "''/data/file.txt''" "[]"
      "ErrorString ''No transport''" 0]
    upload_error_no_partial_result [of demo_world "''/data/file.txt''" "[]"
      "ErrorString ''Internal error''" 666 "[]" "[]" "ErrorString ''Internal error''"]
    u ue
  show ?thesis by simp
qed

section \<open>Claims about the response decoder\<close>



text \<open>
  Claim C4, as stated: for every valid JSON input with \<open>success = false\<close>,
  \<open>parseJSON\<close> fails with an error that carries the numeric code and the message of
  the service. This fails twice. The error is \<open>errors.New\<close> of the message alone: the
  answers with the codes 404 and 500 and the same message give the same error. And a
  valid JSON input with \<open>success = false\<close> whose \<open>error\<close> member is not an integer
  gives the type error of the decoder, not the message.
\<close>

theorem parseJSON_error_code_counterexample:
  \<open>snd (parseJSON ''{"success":false,"error":404,"message":"Not Found"}'') =
     snd (parseJSON ''{"success":false,"error":500,"message":"Not Found"}'') \<and>
   Code (fst (parseJSON ''{"success":false,"error":404,"message":"Not Found"}'')) = 404 \<and>
   Code (fst (parseJSON ''{"success":false,"error":500,"message":"Not Found"}'')) = 500 \<and>
   json_parse ''{"success":false,"error":"404","message":"Not Found"}'' =
     Some (JObject [(''success'', JBool False), (''error'', JString ''404''),
                    (''message'', JString ''Not Found'')]) \<and>
   snd (parseJSON ''{"success":false,"error":"404","message":"Not Found"}'') =
     Some (UnmarshalTypeError ''string'' ''int'')\<close>
  by (simp add: parse_404 parse_404_as_500 json_404_text parse_404_text)

text \<open>
  Claim C4, amended. For every byte sequence that the decoder accepts without an error
  and that leaves \<open>success\<close> false, \<open>parseJSON\<close> fails with \<open>errors.New\<close> of the message
  the service supplied, as it is; the numeric code is not in the error, it is in the
  \<open>Response\<close> returned beside it. For an answer of the service's shape, with the code
  \<open>c\<close> and the message \<open>m\<close>, the \<open>Response\<close> holds \<open>c\<close> and \<open>m\<close> and the error is
  \<open>errors.New m\<close>. In particular the answer with the code 404 and the message
  \<open>Not Found\<close> gives an error whose message is exactly \<open>Not Found\<close>.
\<close>

theorem parseJSON_service_error:
  \<open>(Unmarshal data zero_Response = (res, None) \<and> \<not> Success res \<longrightarrow>
      parseJSON data = (res, Some (ErrorString (Err res)))) \<and>
   (json_parse data =
        Some (JObject [(''success'', JBool False), (''error'', JNumber n),
                       (''message'', JString m)]) \<and>
      ParseInt n = Some c \<longrightarrow>
      parseJSON data =
        (\<lparr>Success = False, Code = c, Err = m, Expiry = [], Key = []\<rparr>, Some (ErrorString m))) \<and>
   parseJSON ''{"success":false,"error":404,"message":"Not Found"}'' =
     (\<lparr>Success = False, Code = 404, Err = ''Not Found'', Expiry = [], Key = []\<rparr>,
      Some (ErrorString ''Not Found''))\<close>
proof (intro conjI impI)
  assume "Unmarshal data zero_Response = (res, None) \<and> \<not> Success res"
  then show "parseJSON data = (res, Some (ErrorString (Err res)))"
    by (simp add: parseJSON_def)
next
  assume "json_parse data =
        Some (JObject [(''success'', JBool False), (''error'', JNumber n),
                       (''message'', JString m)]) \<and>
      ParseInt n = Some c"
  then show "parseJSON data =
        (\<lparr>Success = False, Code = c, Err = m, Expiry = [], Key = []\<rparr>, Some (ErrorString m))"
    by (simp add: parseJSON_def Unmarshal_def field_named_def upper_def zero_Response_def)
next
  show \<open>parseJSON ''{"success":false,"error":404,"message":"Not Found"}'' =
     (\<lparr>Success = False, Code = 404, Err = ''Not Found'', Expiry = [], Key = []\<rparr>,
      Some (ErrorString ''Not Found''))\<close>
    by (rule parse_404)
qed

theorem parseJSON_service_error_witness:
  \<open>json_parse ''{"success":false,"error":500,"message":"Internal error"}'' =
     Some (JObject [(''success'', JBool False), (''error'', JNumber ''500''),
                    (''message'', JString ''Internal error'')]) \<and>
   ParseInt ''500'' = Some 500 \<and>
   parseJSON ''{"success":false,"error":500,"message":"Internal error"}'' =
     (\<lparr>Success = False, Code = 500, Err = ''Internal error'', Expiry = [], Key = []\<rparr>,
      Some (ErrorString ''Internal error''))\<close>
proof -
  have j: \<open>json_parse ''{"success":false,"error":500,"message":"Internal error"}'' =
     Some (JObject [(''success'', JBool False), (''error'', JNumber ''500''),
                    (''message'', JString ''Internal error'')])\<close>
    by (simp add: json_eval)
  have p: "ParseInt ''500'' = Some 500"
    by (simp add: ParseInt_def dec_val_def digit_val_def is_digit_def)
  from parseJSON_service_error [of \<open>''{"success":false,"error":500,"message":"Internal error"}''\<close>
      _ "''500''" "''Internal error''" 500] j p
  show ?thesis by simp
qed

text \<open>
  Claim C8. A decoded response with \<open>success = false\<close> is an error for every caller:
  \<open>parseJSON\<close> returns an error beside it, and so do \<open>postBody\<close>, \<open>Upload\<close> and
  \<open>UploadWithExpire\<close>, the last two with empty strings. A non-empty key is returned
  only when the decoded response has \<open>success = true\<close> and no error is returned.
\<close>

theorem not_success_is_error:
  "(\<not> Success (fst (parseJSON data)) \<longrightarrow> snd (parseJSON data) \<noteq> None) \<and>
   (snd (postBody w file (URL w)) = (Some r, err) \<and> \<not> Success r \<longrightarrow>
      (\<exists>e. snd (Upload w file) = Return ([], Some e))) \<and>
   (snd (postBody w file (URL w @ ''/?expires='' @ expires days)) = (Some r', err') \<and> \<not> Success r' \<longrightarrow>
      (\<exists>e. snd (UploadWithExpire w file days) = Return ([], [], Some e))) \<and>
   (snd (Upload w file) = Return (k, err'') \<and> k \<noteq> [] \<longrightarrow>
      err'' = None \<and>
      (\<exists>r. snd (postBody w file (URL w)) = (Some r, None) \<and> Success r \<and> Key r = k)) \<and>
   (snd (UploadWithExpire w file days) = Return (k', x, err''') \<and> k' \<noteq> [] \<longrightarrow>
      err''' = None \<and>
      (\<exists>r. snd (postBody w file (URL w @ ''/?expires='' @ expires days)) = (Some r, None) \<and>
           Success r \<and> Key r = k' \<and> Expiry r = x))"
proof (intro conjI impI)
  assume "\<not> Success (fst (parseJSON data))"
  then show "snd (parseJSON data) \<noteq> None"
    by (rule parseJSON_not_success)
next
  assume a: "snd (postBody w file (URL w)) = (Some r, err) \<and> \<not> Success r"
  obtain w1 where "postBody w file (URL w) = (w1, Some r, err)"
    using a by (cases "postBody w file (URL w)") simp
  with a have "err \<noteq> None"
    by (auto dest: postBody_not_success)
  with a show "\<exists>e. snd (Upload w file) = Return ([], Some e)"
    by (auto simp: Upload_via_postBody)
next
  assume a: "snd (postBody w file (URL w @ ''/?expires='' @ expires days)) = (Some r', err') \<and> \<not> Success r'"
  obtain w1 where "postBody w file (URL w @ ''/?expires='' @ expires days) = (w1, Some r', err')"
    using a by (cases "postBody w file (URL w @ ''/?expires='' @ expires days)") simp
  with a have "err' \<noteq> None"
    by (auto dest: postBody_not_success)
  with a show "\<exists>e. snd (UploadWithExpire w file days) = Return ([], [], Some e)"
    by (auto simp: UploadWithExpire_via_postBody)
next
  assume a: "snd (Upload w file) = Return (k, err'') \<and> k \<noteq> []"
  obtain w1 rs e where pb: "postBody w file (URL w) = (w1, rs, e)"
    by (cases "postBody w file (URL w)")
  from a pb have e: "e = None" and "err'' = None"
    by (auto simp: Upload_via_postBody split: option.splits)
  then show "err'' = None" by simp
  from pb e obtain r where r: "rs = Some r" "Success r"
    by (auto dest: postBody_no_error)
  with a pb e show "\<exists>r. snd (postBody w file (URL w)) = (Some r, None) \<and> Success r \<and> Key r = k"
    by (auto simp: Upload_via_postBody)
next
  assume a: "snd (UploadWithExpire w file days) = Return (k', x, err''') \<and> k' \<noteq> []"
  obtain w1 rs e where pb: "postBody w file (URL w @ ''/?expires='' @ expires days) = (w1, rs, e)"
    by (cases "postBody w file (URL w @ ''/?expires='' @ expires days)")
  from a pb have e: "e = None" and "err''' = None"
    by (auto simp: UploadWithExpire_via_postBody split: option.splits)
  then show "err''' = None" by simp
  from pb e obtain r where r: "rs = Some r" "Success r"
    by (auto dest: postBody_no_error)
  with a pb e show "\<exists>r. snd (postBody w file (URL w @ ''/?expires='' @ expires days)) = (Some r, None) \<and>
           Success r \<and> Key r = k' \<and> Expiry r = x"
    by (auto simp: UploadWithExpire_via_postBody)
qed

theorem not_success_is_error_witness:
  \<open>\<not> Success (fst (parseJSON ''{"success":false,"error":500,"message":"Internal error"}'')) \<and>
   snd (parseJSON ''{"success":false,"error":500,"message":"Internal error"}'') =
     Some (ErrorString ''Internal error'') \<and>
   (\<exists>e. snd (Upload (const_world ''{"success":false,"error":500,"message":"Internal error"}'')
        ''/data/file.txt'') = Return ([], Some e)) \<and>
   snd (Upload demo_world ''/data/file.txt'') = Return (''2ojE41'', None) \<and>
   (\<exists>r. snd (postBody demo_world ''/data/file.txt'' (URL demo_world)) = (Some r, None) \<and>
        Success r \<and> Key r = ''2ojE41'')\<close>
proof -
  let ?fail = \<open>''{"success":false,"error":500,"message":"Internal error"}''\<close>
  have k: "''2ojE41'' \<noteq> []" by simp
  from not_success_is_error [of ?fail demo_world "''/data/file.txt''" _ _ _ _ _ "''2ojE41''" None]
    demo_Upload k
  have ok: "\<exists>r. snd (postBody demo_world ''/data/file.txt'' (URL demo_world)) = (Some r, None) \<and>
        Success r \<and> Key r = ''2ojE41''"
    by blast
  have pb: "snd (postBody (const_world ?fail) ''/data/file.txt'' (URL (const_world ?fail))) =
      (Some (fst (parseJSON ?fail)), snd (parseJSON ?fail))"
    by (rule const_world_postBody)
  have ns: "\<not> Success (fst (parseJSON ?fail))"
    by (simp add: parse_500)
  from not_success_is_error [of ?fail "const_world ?fail" "''/data/file.txt''"
      "fst (parseJSON ?fail)" "snd (parseJSON ?fail)"] pb ns
  have "\<exists>e. snd (Upload (const_world ?fail) ''/data/file.txt'') = Return ([], Some e)"
    by blast
  with ok show ?thesis
    by (simp add: parse_500 demo_Upload)
qed

section \<open>Claims about the download\<close>

text \<open>
  Claim C5. When the GET is answered with a status code other than 200, \<open>Download\<close>
  fails with \<open>errors.New\<close> of the status text of the response, the file system is
  left as it was and \<open>os.Create\<close> is not called: the only calls are the GET and the
  closing of the response body. Whenever \<open>Download\<close> calls \<open>os.Create\<close> or changes a
  file, the GET was answered with the status code 200.
\<close>

theorem download_bad_status:
  "(Get (api w) (URL w @ ''/'' @ key) = Inr resp \<and> StatusCode resp \<noteq> 200 \<longrightarrow>
      Download w key file =
        (emit EvCloseBody (emit (EvGet (URL w @ ''/'' @ key)) w), Some (ErrorString (Status resp))) \<and>
      files (fst (Download w key file)) = files w \<and>
      creates (trace (fst (Download w key file))) = creates (trace w)) \<and>
   (files (fst (Download w key file)) \<noteq> files w \<or>
    creates (trace (fst (Download w key file))) \<noteq> creates (trace w) \<longrightarrow>
      (\<exists>r. Get (api w) (URL w @ ''/'' @ key) = Inr r \<and> StatusCode r = 200))"
proof (intro conjI impI)
  assume a: "Get (api w) (URL w @ ''/'' @ key) = Inr resp \<and> StatusCode resp \<noteq> 200"
  then show d: "Download w key file =
        (emit EvCloseBody (emit (EvGet (URL w @ ''/'' @ key)) w), Some (ErrorString (Status resp)))"
    by (simp add: Download_def StatusOK_def Let_def)
  show "files (fst (Download w key file)) = files w"
    by (simp add: d)
  show "creates (trace (fst (Download w key file))) = creates (trace w)"
    by (simp add: d)
next
  assume ch: "files (fst (Download w key file)) \<noteq> files w \<or>
    creates (trace (fst (Download w key file))) \<noteq> creates (trace w)"
  show "\<exists>r. Get (api w) (URL w @ ''/'' @ key) = Inr r \<and> StatusCode r = 200"
  proof (cases "Get (api w) (URL w @ ''/'' @ key)")
    case (Inl e)
    then have "Download w key file = (emit (EvGet (URL w @ ''/'' @ key)) w, Some e)"
      by (simp add: Download_def Let_def)
    with ch show ?thesis by simp
  next
    case (Inr r)
    show ?thesis
    proof (cases "StatusCode r = 200")
      case True
      with Inr show ?thesis by simp
    next
      case False
      with Inr have "Download w key file =
        (emit EvCloseBody (emit (EvGet (URL w @ ''/'' @ key)) w), Some (ErrorString (Status r)))"
        by (simp add: Download_def StatusOK_def Let_def)
      with ch show ?thesis by simp
    qed
  qed
qed

theorem download_bad_status_witness:
  "Get (api demo_world) (URL demo_world @ ''/'' @ ''not_exists'') = Inr not_found \<and>
   StatusCode not_found \<noteq> 200 \<and>
   snd (Download demo_world ''not_exists'' ''/data/file.txt'') = Some (ErrorString ''404 Not Found'') \<and>
   files (fst (Download demo_world ''not_exists'' ''/data/file.txt'')) = files demo_world \<and>
   trace (fst (Download demo_world ''not_exists'' ''/data/file.txt'')) =
     [EvGet ''https://file.io/not_exists'', EvCloseBody]"
proof -
  have s: "StatusCode not_found \<noteq> 200" and t: "Status not_found = ''404 Not Found''"
    by (simp_all add: not_found_def)
  from download_bad_status [of demo_world "''not_exists''" not_found "''/data/file.txt''"]
    Download_not_found s
  have "Download demo_world ''not_exists'' ''/data/file.txt'' =
        (emit EvCloseBody (emit (EvGet (URL demo_world @ ''/'' @ ''not_exists'')) demo_world),
         Some (ErrorString (Status not_found)))"
    by blast
  with Download_not_found s t show ?thesis
    by (simp add: demo_URL) (simp add: demo_world_def)
qed

section \<open>Further properties\<close>

text \<open>
  Property X1. Decoding the two success answers quoted above \<^verbatim>\<open>parseJSON\<close> in the source gives the
  key (and the expiry) with no error.
\<close>

theorem parseJSON_success_examples:
  \<open>parseJSON ''{"success":true,"key":"2ojE41"}'' =
     (\<lparr>Success = True, Code = 0, Err = [], Expiry = [], Key = ''2ojE41''\<rparr>, None) \<and>
   parseJSON ''{"success":true,"key":"aQbnDJ","expiry":"7 days"}'' =
     (\<lparr>Success = True, Code = 0, Err = [], Expiry = ''7 days'', Key = ''aQbnDJ''\<rparr>, None)\<close>
  by (simp add: json_eval decode_eval)

text \<open>
  Property X2. When the GET is answered with the status code 200 and the destination can be
  created and written, \<open>Download\<close> leaves in the destination exactly the bytes the
  response body delivered and returns how the body ended: no error when it ended in
  EOF, and the read error otherwise, the bytes delivered so far staying in the file.
  The calls are the GET, \<^verbatim>\<open>os.Create\<close>, and the closing of the file and of the body.
\<close>

theorem download_ok_copies_body:
  "Get (api w) (URL w @ ''/'' @ key) = Inr resp \<and> StatusCode resp = 200 \<and>
   create_fault w file = None \<and> write_fault w file = None \<longrightarrow>
     snd (Download w key file) = fault (Body resp) \<and>
     files (fst (Download w key file)) =
       (files w)(file \<mapsto> File \<lparr>content = content (Body resp), fault = None\<rparr>) \<and>
     trace (fst (Download w key file)) =
       trace w @ [EvGet (URL w @ ''/'' @ key), EvCreate file, EvCloseFile file, EvCloseBody]"
  by (simp add: Download_def StatusOK_def Let_def os_Create_def copy_to_file_def write_file_def
      emit_def)

theorem download_ok_copies_body_witness:
  "snd (Download demo_world ''2ojE41'' ''/tmp/file.txt'') = None \<and>
   files (fst (Download demo_world ''2ojE41'' ''/tmp/file.txt'')) ''/tmp/file.txt'' =
     Some (File \<lparr>content = ''This is a test'', fault = None\<rparr>) \<and>
   trace (fst (Download demo_world ''2ojE41'' ''/tmp/file.txt'')) =
     [EvGet ''https://file.io/2ojE41'', EvCreate ''/tmp/file.txt'', EvCloseFile ''/tmp/file.txt'',
      EvCloseBody]"
proof -
  have g: "Get (api demo_world) (URL demo_world @ ''/'' @ ''2ojE41'') =
      Inr (ok_response ''This is a test'')"
    by (simp add: demo_api demo_URL url_client_def)
  have c: "create_fault demo_world ''/tmp/file.txt'' = None"
    and wf: "write_fault demo_world ''/tmp/file.txt'' = None"
    and t: "trace demo_world = []"
    by (simp_all add: demo_world_def)
  have s: "StatusCode (ok_response ''This is a test'') = 200"
    and b: "Body (ok_response ''This is a test'') = \<lparr>content = ''This is a test'', fault = None\<rparr>"
    by (simp_all add: ok_response_def)
  from download_ok_copies_body [of demo_world "''2ojE41''" "ok_response ''This is a test''"
      "''/tmp/file.txt''"] g c wf s
  show ?thesis by (simp add: b t demo_URL)
qed

text \<open>
  Property X3. The encoder on exact multiples: a positive number of weeks is sent as weeks; a
  positive number of 31-day months that is no multiple of 7 as months; a positive
  number of 365-day years that is no multiple of 7 or 31 as years.
\<close>

theorem expires_multiples:
  "(1 \<le> n \<longrightarrow> expires (7 * n) = Itoa n @ ''w'') \<and>
   (1 \<le> n \<and> \<not> 7 dvd n \<longrightarrow> expires (31 * n) = Itoa n @ ''m'') \<and>
   (1 \<le> n \<and> \<not> 7 dvd n \<and> \<not> 31 dvd n \<longrightarrow> expires (365 * n) = Itoa n @ ''y'')"
proof (intro conjI impI)
  assume "1 \<le> n"
  then show "expires (7 * n) = Itoa n @ ''w''"
    by (simp add: expires_pos)
next
  assume a: "1 \<le> n \<and> \<not> 7 dvd n"
  have "\<not> 7 dvd 31 * n"
    using a by (auto dest: dvd_31_mult_7D)
  with a show "expires (31 * n) = Itoa n @ ''m''"
    by (simp add: expires_pos)
next
  assume a: "1 \<le> n \<and> \<not> 7 dvd n \<and> \<not> 31 dvd n"
  have "\<not> 7 dvd 365 * n" and "\<not> 31 dvd 365 * n"
    using a by (auto dest: dvd_365_mult_7D dvd_365_mult_31D)
  with a show "expires (365 * n) = Itoa n @ ''y''"
    by (simp add: expires_pos)
qed

theorem expires_multiples_witness:
  "expires 21 = ''3w'' \<and> expires 62 = ''2m'' \<and> expires 1095 = ''3y''"
  using expires_multiples [of 3] expires_multiples [of 2]
  by (simp add: Itoa_def digit_char_def)

text \<open>
  Property X4. An upload reads the file system and never changes it.
\<close>

theorem upload_leaves_files:
  "files (fst (Upload w file)) = files w \<and> files (fst (UploadWithExpire w file days)) = files w"
proof -
  have "files (fst (postBody w file url)) = files w" for url
    by (cases rule: postBody_steps [of w "file" url]) (auto dest: createBody_world)
  then show ?thesis
    by (simp add: Upload_world UploadWithExpire_world)
qed

end
